theory Spec2Isabelle
  imports Complex_Main
begin

section \<open>Common-resolution convolution of cubes: the planning code of beamcon_3D\<close>

text \<open>
  The development embeds the planning part of \<^verbatim>\<open>racs_tools/beamcon_3D.py\<close>:
  the checks at the top of \<^verbatim>\<open>main\<close>, \<^verbatim>\<open>masking\<close>, the two modes of
  \<^verbatim>\<open>commonbeamer\<close>, the common-beam log and \<^verbatim>\<open>readlogs\<close>, and the block
  partition of the tasks over the MPI ranks.

  Python floats are idealised as exact reals extended by NaN; rounding error of the
  hardware is outside the model. Every exception of the source is a value of
  \<open>error\<close>, returned on the left of a sum. Reading and writing FITS files, the
  convolution of the image planes and the MPI calls are not modelled.
\<close>

subsection \<open>Exceptions\<close>

datatype error =
    ModeError             \<comment> \<open>Exception("'mode' must be 'natural' or 'total'")\<close>
  | ConvModeError         \<comment> \<open>Exception('Please select valid convolution method!')\<close>
  | TargetModeError       \<comment> \<open>Exception("Only specify a target beam in 'total' mode")\<close>
  | TargetPartialError    \<comment> \<open>Exception('Please specify all target beam params!')\<close>
  | NoFilesError          \<comment> \<open>Exception('No files found!')\<close>
  | GridError             \<comment> \<open>Exception("GRID MUST BE SAME IN X AND Y")\<close>
  | ChannelCountError     \<comment> \<open>Exception('Unequal number of spectral channels!')\<close>
  | UndersampleError      \<comment> \<open>Exception("CAN'T UNDERSAMPLE BEAM - EXITING")\<close>
  | MissingLogError       \<comment> \<open>Exception("beamlogConvolve must be co-located with image")\<close>
  | BeamError             \<comment> \<open>radio_beam.utils.BeamError, the only exception the source catches\<close>
  | ValueError            \<comment> \<open>raised by the libraries (numpy, astropy, radio_beam)\<close>
  | IndexError
  | UnboundLocalError     \<comment> \<open>a local variable read before any assignment\<close>
  | ZeroDivisionError

subsection \<open>The block partition of the tasks over the ranks\<close>

text \<open>
  Lines 1018 to 1037 of \<^verbatim>\<open>main\<close>: \<^verbatim>\<open>count = dims // nPE\<close>,
  \<^verbatim>\<open>rem = dims % nPE\<close>, and the two branches on \<^verbatim>\<open>myPE < rem\<close>.
  Python's \<^verbatim>\<open>//\<close> and \<^verbatim>\<open>%\<close> on integers are \<open>div\<close> and \<open>mod\<close> on
  \<open>int\<close>; a zero divisor raises.
\<close>

definition my_start :: "int \<Rightarrow> int \<Rightarrow> int \<Rightarrow> int" where
  "my_start nPE myPE dims =
     (let count = dims div nPE; rem = dims mod nPE
      in if myPE < rem then myPE * (count + 1) else myPE * count + rem)"

definition my_end :: "int \<Rightarrow> int \<Rightarrow> int \<Rightarrow> int" where
  "my_end nPE myPE dims =
     (let count = dims div nPE; rem = dims mod nPE
      in if myPE < rem then my_start nPE myPE dims + count
         else my_start nPE myPE dims + (count - 1))"

definition task_range :: "int \<Rightarrow> int \<Rightarrow> int \<Rightarrow> error + int \<times> int" where
  "task_range nPE myPE dims =
     (if nPE = 0 then Inl ZeroDivisionError
      else Inr (my_start nPE myPE dims, my_end nPE myPE dims))"

text \<open>Python's slice \<^verbatim>\<open>xs[a:b]\<close>: a negative bound counts from the end, and
  both bounds are clamped to the list.\<close>

definition slice_bound :: "int \<Rightarrow> int \<Rightarrow> int" where
  "slice_bound n i = (if i < 0 then max 0 (i + n) else min i n)"

definition py_slice :: "'a list \<Rightarrow> int \<Rightarrow> int \<Rightarrow> 'a list" where
  "py_slice xs a b =
     (let n = int (length xs); s = slice_bound n a; e = slice_bound n b
      in take (nat (e - s)) (drop (nat s) xs))"

text \<open>The tasks of one rank: \<^verbatim>\<open>inputs[my_start:my_end+1]\<close>.\<close>

definition my_tasks :: "int \<Rightarrow> int \<Rightarrow> 'a list \<Rightarrow> 'a list" where
  "my_tasks nPE myPE inputs =
     py_slice inputs (my_start nPE myPE (int (length inputs)))
       (my_end nPE myPE (int (length inputs)) + 1)"

subsection \<open>The configuration checks of main\<close>

text \<open>
  The command-line arguments that the planning reads, and the checks of lines 800 to 862
  in the order of the source. The mode check is written as the source has it: the
  condition is the conjunction \<^verbatim>\<open>mode == 'natural' and mode == 'total'\<close>.
\<close>

record args =
  mode :: string
  conv_mode :: string
  bmaj :: "real option"
  bmin :: "real option"
  bpa :: "real option"
  infile :: "string list"
  cutoff :: "real option"
  tolerance :: real
  nsamps :: int
  epsilon :: real
  uselogs :: bool
  verbose :: bool

definition check_mode :: "string \<Rightarrow> error + unit" where
  "check_mode m =
     (if m = ''natural'' \<and> m = ''total'' then Inl ModeError else Inr ())"

definition check_conv_mode :: "string \<Rightarrow> error + unit" where
  "check_conv_mode c =
     (if \<not> c = ''robust'' \<and> \<not> c = ''scipy'' \<and> \<not> c = ''astropy'' \<and> \<not> c = ''astropy_fft''
      then Inl ConvModeError else Inr ())"

text \<open>The target beam of the command line, in arcsec, arcsec and deg.\<close>

definition check_target ::
  "string \<Rightarrow> real option \<Rightarrow> real option \<Rightarrow> real option \<Rightarrow> error + (real \<times> real \<times> real) option" where
  "check_target m a b p =
     (let nonetest = [a = None, b = None, p = None]
      in if \<not> list_all id nonetest \<and> m \<noteq> ''total'' then Inl TargetModeError
         else if list_all id nonetest then Inr None
         else if list_ex id nonetest then Inl TargetPartialError
         else Inr (Some (the a, the b, the p)))"

definition check_files :: "string list \<Rightarrow> error + unit" where
  "check_files fs = (if fs = [] then Inl NoFilesError else Inr ())"

definition main_checks :: "args \<Rightarrow> error + (real \<times> real \<times> real) option" where
  "main_checks a =
     (case check_mode (mode a) of Inl e \<Rightarrow> Inl e | Inr _ \<Rightarrow>
      case check_conv_mode (conv_mode a) of Inl e \<Rightarrow> Inl e | Inr _ \<Rightarrow>
      case check_target (mode a) (bmaj a) (bmin a) (bpa a) of Inl e \<Rightarrow> Inl e | Inr t \<Rightarrow>
      case check_files (infile a) of Inl e \<Rightarrow> Inl e | Inr _ \<Rightarrow> Inr t)"

subsection \<open>Floats, units and quantities\<close>

text \<open>
  A float is NaN or a real number. Arithmetic with NaN gives NaN, and every comparison
  with NaN is false, as in numpy.
\<close>

datatype pyfloat = NaN | Fin real

fun is_nan :: "pyfloat \<Rightarrow> bool" where
  "is_nan NaN = True"
| "is_nan (Fin _) = False"

fun fmul :: "pyfloat \<Rightarrow> pyfloat \<Rightarrow> pyfloat" where
  "fmul (Fin a) (Fin b) = Fin (a * b)"
| "fmul _ _ = NaN"

fun flt :: "pyfloat \<Rightarrow> pyfloat \<Rightarrow> bool" where
  "flt (Fin a) (Fin b) = (a < b)"
| "flt _ _ = False"

fun fgt :: "pyfloat \<Rightarrow> pyfloat \<Rightarrow> bool" where
  "fgt (Fin a) (Fin b) = (a > b)"
| "fgt _ _ = False"

fun fle :: "pyfloat \<Rightarrow> pyfloat \<Rightarrow> bool" where
  "fle (Fin a) (Fin b) = (a \<le> b)"
| "fle _ _ = False"

text \<open>
  An astropy \<^verbatim>\<open>Quantity\<close> is a value with a unit; the source uses angles only.
  \<^verbatim>\<open>q.to(u)\<close> converts the value, \<^verbatim>\<open>q.value\<close> and \<^verbatim>\<open>q.unit\<close> read the
  two parts, and \<^verbatim>\<open>x * u\<close> attaches the unit \<open>u\<close> to the bare number \<open>x\<close>.
\<close>

datatype angle_unit = Deg | Arcsec | Rad

fun in_deg :: "angle_unit \<Rightarrow> real" where
  "in_deg Deg = 1"
| "in_deg Arcsec = 1 / 3600"
| "in_deg Rad = 180 / pi"

record quantity =
  qvalue :: pyfloat
  qunit :: angle_unit

definition quant :: "pyfloat \<Rightarrow> angle_unit \<Rightarrow> quantity" where
  "quant x u = \<lparr>qvalue = x, qunit = u\<rparr>"

definition to_unit :: "angle_unit \<Rightarrow> quantity \<Rightarrow> quantity" where
  "to_unit u q = quant (fmul (qvalue q) (Fin (in_deg (qunit q) / in_deg u))) u"

definition qscale :: "quantity \<Rightarrow> real \<Rightarrow> quantity" where
  "qscale q k = quant (fmul (qvalue q) (Fin k)) (qunit q)"

text \<open>A \<^verbatim>\<open>Quantity\<close> array has one unit for all of its entries.\<close>

record qarray =
  avalues :: "pyfloat list"
  aunit :: angle_unit

definition qarr :: "pyfloat list \<Rightarrow> angle_unit \<Rightarrow> qarray" where
  "qarr xs u = \<lparr>avalues = xs, aunit = u\<rparr>"

subsection \<open>Beams\<close>

text \<open>
  \<^verbatim>\<open>radio_beam.Beam\<close> holds three quantities and \<^verbatim>\<open>radio_beam.Beams\<close> three
  quantity arrays, stored as they are passed to the constructor. Both classes are
  quantities themselves, whose value is the solid angle of the beam: \<^verbatim>\<open>np.isnan\<close>
  and the order \<^verbatim>\<open><\<close> read that value. The solid angle is the product of the two
  axes times a positive constant, which no comparison depends on; \<open>beam_area\<close>
  leaves the constant out.
\<close>

record beam =
  major :: quantity
  minor :: quantity
  pa :: quantity

record beams =
  majors :: qarray
  minors :: qarray
  pas :: qarray

definition beam_area :: "beam \<Rightarrow> pyfloat" where
  "beam_area b = fmul (qvalue (to_unit Deg (major b))) (qvalue (to_unit Deg (minor b)))"

definition beam_isnan :: "beam \<Rightarrow> bool" where
  "beam_isnan b = is_nan (beam_area b)"

definition beam_lt :: "beam \<Rightarrow> beam \<Rightarrow> bool" where
  "beam_lt a b = flt (beam_area a) (beam_area b)"

text \<open>\<^verbatim>\<open>Beam(major=np.nan*u.deg, minor=np.nan*u.deg, pa=np.nan*u.deg)\<close>\<close>

definition nan_beam :: beam where
  "nan_beam = \<lparr>major = quant NaN Deg, minor = quant NaN Deg, pa = quant NaN Deg\<rparr>"

text \<open>\<^verbatim>\<open>Beam(major=0*u.deg, minor=0*u.deg, pa=0*u.deg)\<close>, the sentinel of the pipeline.\<close>

definition nullbeam :: beam where
  "nullbeam = \<lparr>major = quant (Fin 0) Deg, minor = quant (Fin 0) Deg, pa = quant (Fin 0) Deg\<rparr>"

text \<open>Iterating over a \<^verbatim>\<open>Beams\<close> object, its length, and \<^verbatim>\<open>beams[n]\<close>.\<close>

definition beams_list :: "beams \<Rightarrow> beam list" where
  "beams_list bs =
     map (\<lambda>(a, b, p). \<lparr>major = quant a (aunit (majors bs)), minor = quant b (aunit (minors bs)),
                        pa = quant p (aunit (pas bs))\<rparr>)
       (zip (avalues (majors bs)) (zip (avalues (minors bs)) (avalues (pas bs))))"

definition beams_get :: "beams \<Rightarrow> nat \<Rightarrow> error + beam" where
  "beams_get bs n =
     (if n < length (beams_list bs) then Inr (beams_list bs ! n) else Inl IndexError)"

definition list_get :: "'a list \<Rightarrow> nat \<Rightarrow> error + 'a" where
  "list_get xs n = (if n < length xs then Inr (xs ! n) else Inl IndexError)"

text \<open>A loop whose body may raise: the first exception, from left to right, ends it.\<close>

fun map_err :: "('a \<Rightarrow> error + 'b) \<Rightarrow> 'a list \<Rightarrow> error + 'b list" where
  "map_err f [] = Inr []"
| "map_err f (x # xs) =
     (case f x of Inl e \<Rightarrow> Inl e
      | Inr y \<Rightarrow> (case map_err f xs of Inl e \<Rightarrow> Inl e | Inr ys \<Rightarrow> Inr (y # ys)))"

subsection \<open>The rounding helpers\<close>

text \<open>
  Modelled from the spec: \<^verbatim>\<open>my_ceil\<close> and \<^verbatim>\<open>round_up\<close> are imported from
  \<^verbatim>\<open>racs_tools.beamcon_2D\<close>, which is not among the sources. The spec describes them
  as rounding up to a fixed decimal precision (a ceiling, not the nearest value) and as
  a decimal-ceiling rule at a given number of decimals.
\<close>

fun my_ceil :: "pyfloat \<Rightarrow> nat \<Rightarrow> pyfloat" where
  "my_ceil NaN precision = NaN"
| "my_ceil (Fin a) precision = Fin (of_int \<lceil>a * 10 ^ precision\<rceil> / 10 ^ precision)"

fun round_up :: "pyfloat \<Rightarrow> nat \<Rightarrow> pyfloat" where
  "round_up NaN decimals = NaN"
| "round_up (Fin n) decimals = Fin (of_int \<lceil>n * 10 ^ decimals\<rceil> / 10 ^ decimals)"

text \<open>
  The block under the comment \<^verbatim>\<open># Round up values\<close> (lines 426 to 434, again at 456 to 462, 530 to 538 and
  559 to 565): the axes in arcsec at precision 1, the position angle in deg at 2 decimals.
\<close>

definition round_beam :: "beam \<Rightarrow> beam" where
  "round_beam b =
     \<lparr>major = quant (my_ceil (qvalue (to_unit Arcsec (major b))) 1) Arcsec,
      minor = quant (my_ceil (qvalue (to_unit Arcsec (minor b))) 1) Arcsec,
      pa = quant (round_up (qvalue (to_unit Deg (pa b))) 2) Deg\<rparr>"

subsection \<open>The operations of the libraries\<close>

text \<open>
  The geometry of the beams belongs to \<^verbatim>\<open>radio_beam\<close>, and the flux factor to
  \<^verbatim>\<open>racs_tools.au2\<close>; neither is among the sources. They are parameters of the model:
  \<^item> \<open>common_beam tolerance nsamps epsilon bs\<close> is \<^verbatim>\<open>Beams.common_beam\<close> on the
    beams \<open>bs\<close>, which may raise;
  \<^item> \<open>deconvolve a b\<close> is \<^verbatim>\<open>a.deconvolve(b)\<close>, which may raise;
  \<^item> \<open>convolve a b\<close> is \<^verbatim>\<open>a.convolve(b)\<close>;
  \<^item> \<open>beam_eq a b\<close> is one entry of \<^verbatim>\<open>beams == nullbeam\<close>;
  \<^item> \<open>gauss_factor conv orig dx dy\<close> is the first component of
    \<^verbatim>\<open>au2.gauss_factor\<close>, on axes in arcsec and angles in deg.
\<close>

record beamlib =
  common_beam :: "real \<Rightarrow> int \<Rightarrow> real \<Rightarrow> beam list \<Rightarrow> error + beam"
  deconvolve :: "beam \<Rightarrow> beam \<Rightarrow> error + beam"
  convolve :: "beam \<Rightarrow> beam \<Rightarrow> beam"
  beam_eq :: "beam \<Rightarrow> beam \<Rightarrow> bool"
  gauss_factor ::
    "pyfloat \<times> pyfloat \<times> pyfloat \<Rightarrow> pyfloat \<times> pyfloat \<times> pyfloat \<Rightarrow> pyfloat \<Rightarrow> pyfloat \<Rightarrow> pyfloat"

subsection \<open>The solver with its retry\<close>

text \<open>
  Lines 413 to 424 and 514 to 525: the search at the configured tolerance and, when it
  raises \<^verbatim>\<open>BeamError\<close>, once more at a tenth of it, outside any \<^verbatim>\<open>try\<close>. The
  first component is the log of the calls made, each with its three arguments.
\<close>

definition common_beam_retry ::
  "beamlib \<Rightarrow> args \<Rightarrow> beam list \<Rightarrow> (real \<times> int \<times> real) list \<times> (error + beam)" where
  "common_beam_retry lib a bs =
     (case common_beam lib (tolerance a) (nsamps a) (epsilon a) bs of
        Inr b \<Rightarrow> ([(tolerance a, nsamps a, epsilon a)], Inr b)
      | Inl e \<Rightarrow>
          if e = BeamError
          then ([(tolerance a, nsamps a, epsilon a), (tolerance a * 0.1, nsamps a, epsilon a)],
                common_beam lib (tolerance a * 0.1) (nsamps a) (epsilon a) bs)
          else ([(tolerance a, nsamps a, epsilon a)], Inl e))"

subsection \<open>The Nyquist check\<close>

text \<open>
  \<^verbatim>\<open>samps.value < 2\<close> for one entry, where \<^verbatim>\<open>samps = minorcons / grid\<close>, both in
  arcsec. numpy divides by zero without raising: the quotient is infinite with the sign
  of the numerator, or NaN for \<open>0 / 0\<close>.
\<close>

fun undersampled :: "pyfloat \<Rightarrow> pyfloat \<Rightarrow> bool" where
  "undersampled (Fin m) (Fin g) = (if g = 0 then m < 0 else m / g < 2)"
| "undersampled _ _ = False"

text \<open>The minor axes, in arcsec, of the candidate deconvolved by every beam.\<close>

definition minorcons :: "beamlib \<Rightarrow> beam \<Rightarrow> beam list \<Rightarrow> error + pyfloat list" where
  "minorcons lib commonbeam bs =
     map_err (\<lambda>b. case deconvolve lib commonbeam b of
                     Inl e \<Rightarrow> Inl e
                   | Inr c \<Rightarrow> Inr (qvalue (to_unit Arcsec (minor c)))) bs"

definition any_undersampled :: "pyfloat list \<Rightarrow> quantity \<Rightarrow> bool" where
  "any_undersampled ms grid = list_ex (\<lambda>m. undersampled m (qvalue (to_unit Arcsec grid))) ms"

text \<open>\<^verbatim>\<open>Beam(major=grid*2, minor=grid*2, pa=0*u.deg)\<close>\<close>

definition nyq_con_beam :: "quantity \<Rightarrow> beam" where
  "nyq_con_beam grid = \<lparr>major = qscale grid 2, minor = qscale grid 2, pa = quant (Fin 0) Deg\<rparr>"

definition nyq_beam :: "beamlib \<Rightarrow> quantity \<Rightarrow> beam \<Rightarrow> beam" where
  "nyq_beam lib grid commonbeam = round_beam (convolve lib commonbeam (nyq_con_beam grid))"

text \<open>Lines 436 to 469, the check of the natural mode; \<open>bs\<close> are the non-NaN beams.\<close>

definition nyquist_natural ::
  "beamlib \<Rightarrow> string \<Rightarrow> quantity \<Rightarrow> beam list \<Rightarrow> beam \<Rightarrow> error + beam" where
  "nyquist_natural lib cm grid bs commonbeam =
     (if cm \<noteq> ''robust'' then
        (case minorcons lib commonbeam bs of
           Inl e \<Rightarrow> Inl e
         | Inr ms \<Rightarrow>
             if any_undersampled ms grid then Inr (nyq_beam lib grid commonbeam)
             else Inr commonbeam)
      else Inr commonbeam)"

text \<open>
  Lines 539 to 576, the check of the total mode. With a target beam the replacement is
  computed, the target is kept, and the run ends when the target is smaller than the
  replacement.
\<close>

definition nyquist_total ::
  "beamlib \<Rightarrow> string \<Rightarrow> quantity \<Rightarrow> beam list \<Rightarrow> beam option \<Rightarrow> beam \<Rightarrow> error + beam" where
  "nyquist_total lib cm grid bs target_beam commonbeam =
     (if cm \<noteq> ''robust'' then
        (case minorcons lib commonbeam bs of
           Inl e \<Rightarrow> Inl e
         | Inr ms \<Rightarrow>
             if any_undersampled ms grid then
               (case target_beam of
                  Some t \<Rightarrow>
                    if beam_lt t (nyq_beam lib grid commonbeam) then Inl UndersampleError
                    else Inr t
                | None \<Rightarrow> Inr (nyq_beam lib grid commonbeam))
             else Inr commonbeam)
      else Inr commonbeam)"

subsection \<open>The common beam of one beam set\<close>

text \<open>
  The body of the loop over \<^verbatim>\<open>big_beams\<close> of the natural mode (lines 406 to 469):
  the guard for a set of NaN beams, the solver on the other beams, the rounding and the
  check. \<^verbatim>\<open>beams[~np.isnan(beams)]\<close> keeps the beams that are not NaN.
\<close>

definition natural_common ::
  "beamlib \<Rightarrow> args \<Rightarrow> string \<Rightarrow> quantity \<Rightarrow> beam list \<Rightarrow> error + beam" where
  "natural_common lib a cm grid bs =
     (if list_all beam_isnan bs then Inr nan_beam
      else
        (case snd (common_beam_retry lib a (filter (\<lambda>b. \<not> beam_isnan b) bs)) of
           Inl e \<Rightarrow> Inl e
         | Inr commonbeam \<Rightarrow>
             nyquist_natural lib cm grid (filter (\<lambda>b. \<not> beam_isnan b) bs)
               (round_beam commonbeam)))"

text \<open>
  Lines 514 to 576 of the total mode: the solver is called on the beams that are not
  NaN without a guard before it, a target beam replaces the solved beam, and the
  check follows.
\<close>

definition total_common ::
  "beamlib \<Rightarrow> args \<Rightarrow> string \<Rightarrow> quantity \<Rightarrow> beam list \<Rightarrow> beam option \<Rightarrow> error + beam" where
  "total_common lib a cm grid bs target_beam =
     (case snd (common_beam_retry lib a (filter (\<lambda>b. \<not> beam_isnan b) bs)) of
        Inl e \<Rightarrow> Inl e
      | Inr solved \<Rightarrow>
          nyquist_total lib cm grid (filter (\<lambda>b. \<not> beam_isnan b) bs) target_beam
            (case target_beam of Some t \<Rightarrow> t | None \<Rightarrow> round_beam solved))"

subsection \<open>The data dictionary\<close>

text \<open>
  The table written to the common-beam log: the eight columns in the order of the
  source, as bare numbers, and the line of units that the source stores in the comments
  of the table. The ASCII writer and reader of astropy are taken to keep every number.
\<close>

record logtable =
  col_channel :: "int list"
  target_bmaj :: "pyfloat list"
  target_bmin :: "pyfloat list"
  target_bpa :: "pyfloat list"
  conv_bmaj :: "pyfloat list"
  conv_bmin :: "pyfloat list"
  conv_bpa :: "pyfloat list"
  conv_factor :: "pyfloat list"
  unit_comment :: "angle_unit option list"

text \<open>
  One entry of \<^verbatim>\<open>datadict\<close>. The dictionary is keyed by \<^verbatim>\<open>cube_0\<close>,
  \<^verbatim>\<open>cube_1\<close>, ... in the order of insertion, so it is a list here. The entries
  \<^verbatim>\<open>facs\<close>, \<^verbatim>\<open>convbeams\<close> and \<^verbatim>\<open>commonbeams\<close> exist after the planning
  only. \<open>logfiles\<close> is the part of the file system that belongs to the cube: the
  table in the file \<^verbatim>\<open>beamlogConvolve-{mode}.\<close>..., for each mode.
\<close>

record cube =
  dx :: quantity
  dy :: quantity
  beams :: beams
  mask :: "bool list"
  facs :: "pyfloat list option"
  convbeams :: "beams option"
  commonbeams :: "beams option"
  logfiles :: "string \<rightharpoonup> logtable"

subsection \<open>masking\<close>

text \<open>
  \<^verbatim>\<open>mask += other\<close> on boolean arrays is the elementwise disjunction, in place. numpy
  broadcasts an operand of length one and refuses any other difference of lengths.
\<close>

definition mask_add :: "bool list \<Rightarrow> bool list \<Rightarrow> error + bool list" where
  "mask_add m other =
     (if length other = length m then Inr (map (\<lambda>(x, y). x \<or> y) (zip m other))
      else if length other = 1 then Inr (map (\<lambda>x. x \<or> hd other) m)
      else Inl ValueError)"

text \<open>\<^verbatim>\<open>cutmask = majors > cutoff\<close>: the comparison converts the cutoff to the unit
  of the array.\<close>

definition cutmask :: "quantity \<Rightarrow> beams \<Rightarrow> bool list" where
  "cutmask cutq bs =
     map (\<lambda>x. fgt x (qvalue (to_unit (aunit (majors bs)) cutq))) (avalues (majors bs))"

text \<open>\<^verbatim>\<open>nullmask = datadict[key]['beams'] == nullbeam\<close>\<close>

definition nullmask :: "beamlib \<Rightarrow> beams \<Rightarrow> bool list" where
  "nullmask lib bs = map (\<lambda>b. beam_eq lib b nullbeam) (beams_list bs)"

definition add_cutmask :: "quantity \<Rightarrow> cube \<Rightarrow> error + cube" where
  "add_cutmask cutq c =
     (case mask_add (mask c) (cutmask cutq (beams c)) of
        Inl e \<Rightarrow> Inl e | Inr m \<Rightarrow> Inr (c\<lparr>mask := m\<rparr>))"

definition add_nullmask :: "beamlib \<Rightarrow> cube \<Rightarrow> error + cube" where
  "add_nullmask lib c =
     (case mask_add (mask c) (nullmask lib (beams c)) of
        Inl e \<Rightarrow> Inl e | Inr m \<Rightarrow> Inr (c\<lparr>mask := m\<rparr>))"

text \<open>The three loops of \<^verbatim>\<open>masking\<close> (lines 668 to 683), one after the other.\<close>

definition masking ::
  "beamlib \<Rightarrow> nat \<Rightarrow> quantity option \<Rightarrow> cube list \<Rightarrow> error + cube list" where
  "masking lib nchans cutq datadict =
     (let d0 = map (\<lambda>c. c\<lparr>mask := replicate nchans False\<rparr>) datadict
      in case (case cutq of None \<Rightarrow> Inr d0 | Some q \<Rightarrow> map_err (add_cutmask q) d0) of
           Inl e \<Rightarrow> Inl e
         | Inr d1 \<Rightarrow> map_err (add_nullmask lib) d1)"

subsection \<open>commonbeamer, natural mode\<close>

text \<open>
  Lines 372 to 394: the beams of channel \<open>n\<close> over the cubes. The quantities read
  from the stored arrays are fresh scalars, so multiplying them by NaN leaves the stored
  arrays as they are. The values are collected without their units, and the array gets
  the unit of the last cube's entry. With no cube at all, \<^verbatim>\<open>major\<close> is not bound.
\<close>

definition masked_entry :: "cube \<Rightarrow> nat \<Rightarrow> error + beam" where
  "masked_entry c n =
     (case beams_get (beams c) n of
        Inl e \<Rightarrow> Inl e
      | Inr b \<Rightarrow>
          (case list_get (mask c) n of
             Inl e \<Rightarrow> Inl e
           | Inr m \<Rightarrow>
               Inr (if m then \<lparr>major = quant (fmul (qvalue (major b)) NaN) (qunit (major b)),
                               minor = quant (fmul (qvalue (minor b)) NaN) (qunit (minor b)),
                               pa = quant (fmul (qvalue (pa b)) NaN) (qunit (pa b))\<rparr>
                    else b)))"

definition with_units_of :: "beam \<Rightarrow> beam \<Rightarrow> beam" where
  "with_units_of u b =
     \<lparr>major = quant (qvalue (major b)) (qunit (major u)),
      minor = quant (qvalue (minor b)) (qunit (minor u)),
      pa = quant (qvalue (pa b)) (qunit (pa u))\<rparr>"

definition channel_beams :: "cube list \<Rightarrow> nat \<Rightarrow> error + beam list" where
  "channel_beams datadict n =
     (case map_err (\<lambda>c. masked_entry c n) datadict of
        Inl e \<Rightarrow> Inl e
      | Inr bs \<Rightarrow>
          (case bs of [] \<Rightarrow> Inl UnboundLocalError
           | _ \<Rightarrow> Inr (map (with_units_of (last bs)) bs)))"

text \<open>
  The values of a list of beams as a \<^verbatim>\<open>Beams\<close> object with the units of the last
  beam: \<^verbatim>\<open>bmaj_common *= commonbeam.major.unit\<close> after the loop reads the loop
  variable, which holds the beam of the last channel. With no channel it is not bound.
\<close>

definition beams_of_values :: "beam list \<Rightarrow> error + beams" where
  "beams_of_values bs =
     (case bs of [] \<Rightarrow> Inl UnboundLocalError
      | _ \<Rightarrow>
          Inr \<lparr>majors = qarr (map (\<lambda>b. qvalue (major b)) bs) (qunit (major (last bs))),
               minors = qarr (map (\<lambda>b. qvalue (minor b)) bs) (qunit (minor (last bs))),
               pas = qarr (map (\<lambda>b. qvalue (pa b)) bs) (qunit (pa (last bs)))\<rparr>)"

text \<open>
  Lines 365 to 484. \<^verbatim>\<open>grid = datadict[key]["dy"]\<close> reads the key left by the loop
  over the cubes, the last one.
\<close>

definition commonbeamer_natural ::
  "beamlib \<Rightarrow> cube list \<Rightarrow> nat \<Rightarrow> args \<Rightarrow> string \<Rightarrow> error + beams" where
  "commonbeamer_natural lib datadict nchans a cm =
     (case map_err (channel_beams datadict) [0..<nchans] of
        Inl e \<Rightarrow> Inl e
      | Inr big_beams \<Rightarrow>
          (case map_err (\<lambda>bs. natural_common lib a cm (dy (last datadict)) bs) big_beams of
             Inl e \<Rightarrow> Inl e
           | Inr cbs \<Rightarrow> beams_of_values cbs))"

subsection \<open>commonbeamer, total mode\<close>

text \<open>
  Lines 490 to 496: \<^verbatim>\<open>major = datadict[key]['beams'].major\<close> is the stored array
  itself, and \<^verbatim>\<open>major[mask] *= np.nan\<close> writes NaN into it at the masked channels.
  The cube that leaves the loop has the changed arrays. A boolean index of another
  length than the array raises.
\<close>

definition nan_where :: "bool list \<Rightarrow> qarray \<Rightarrow> error + qarray" where
  "nan_where m xs =
     (if length m = length (avalues xs)
      then Inr (qarr (map (\<lambda>(k, x). if k then fmul x NaN else x) (zip m (avalues xs))) (aunit xs))
      else Inl IndexError)"

definition mask_stored :: "cube \<Rightarrow> error + cube" where
  "mask_stored c =
     (case nan_where (mask c) (majors (beams c)) of Inl e \<Rightarrow> Inl e | Inr mj \<Rightarrow>
      case nan_where (mask c) (minors (beams c)) of Inl e \<Rightarrow> Inl e | Inr mn \<Rightarrow>
      case nan_where (mask c) (pas (beams c)) of Inl e \<Rightarrow> Inl e | Inr p \<Rightarrow>
        Inr (c\<lparr>beams := \<lparr>majors = mj, minors = mn, pas = p\<rparr>\<rparr>))"

text \<open>
  Lines 497 to 508: the values of all cubes in one array, with the units of the last
  cube. (The cubes have the same number of channels, which \<^verbatim>\<open>main\<close> checks.)
\<close>

definition big_beams_total :: "cube list \<Rightarrow> error + beams" where
  "big_beams_total datadict =
     (case datadict of [] \<Rightarrow> Inl UnboundLocalError
      | _ \<Rightarrow>
          Inr \<lparr>majors = qarr (concat (map (\<lambda>c. avalues (majors (beams c))) datadict))
                           (aunit (majors (beams (last datadict)))),
               minors = qarr (concat (map (\<lambda>c. avalues (minors (beams c))) datadict))
                           (aunit (minors (beams (last datadict)))),
               pas = qarr (concat (map (\<lambda>c. avalues (pas (beams c))) datadict))
                        (aunit (pas (beams (last datadict))))\<rparr>)"

text \<open>Lines 579 to 583: the one beam, \<open>nchans\<close> times.\<close>

definition broadcast_beam :: "nat \<Rightarrow> beam \<Rightarrow> beams" where
  "broadcast_beam nchans b =
     \<lparr>majors = qarr (replicate nchans (qvalue (major b))) (qunit (major b)),
      minors = qarr (replicate nchans (qvalue (minor b))) (qunit (minor b)),
      pas = qarr (replicate nchans (qvalue (pa b))) (qunit (pa b))\<rparr>"

definition commonbeamer_total ::
  "beamlib \<Rightarrow> cube list \<Rightarrow> nat \<Rightarrow> args \<Rightarrow> string \<Rightarrow> beam option \<Rightarrow> error + cube list \<times> beams" where
  "commonbeamer_total lib datadict nchans a cm target_beam =
     (case map_err mask_stored datadict of
        Inl e \<Rightarrow> Inl e
      | Inr d \<Rightarrow>
          (case big_beams_total d of
             Inl e \<Rightarrow> Inl e
           | Inr big_beams \<Rightarrow>
               (case total_common lib a cm (dy (last d)) (beams_list big_beams) target_beam of
                  Inl e \<Rightarrow> Inl e
                | Inr commonbeam \<Rightarrow> Inr (d, broadcast_beam nchans commonbeam))))"

subsection \<open>commonbeamer, the convolving beams, the factors and the log\<close>

text \<open>\<^verbatim>\<open>getfacs\<close> (lines 165 to 196)\<close>

definition getfacs :: "beamlib \<Rightarrow> cube \<Rightarrow> beams \<Rightarrow> pyfloat list" where
  "getfacs lib c cvs =
     map (\<lambda>(conbm, oldbeam).
            gauss_factor lib
              (qvalue (to_unit Arcsec (major conbm)), qvalue (to_unit Arcsec (minor conbm)),
               qvalue (to_unit Deg (pa conbm)))
              (qvalue (to_unit Arcsec (major oldbeam)), qvalue (to_unit Arcsec (minor oldbeam)),
               qvalue (to_unit Deg (pa oldbeam)))
              (qvalue (to_unit Arcsec (dx c))) (qvalue (to_unit Arcsec (dy c))))
       (zip (beams_list cvs) (beams_list (beams c)))"

text \<open>
  Lines 601 to 623: the convolving beam of every channel. The axes are collected as
  \<^verbatim>\<open>.value\<close> and get the unit of the last convolving beam; the angle is converted
  to deg first.
\<close>

definition convbeam_of :: "beamlib \<Rightarrow> beam \<times> beam \<times> bool \<Rightarrow> error + beam" where
  "convbeam_of lib t =
     (case t of (commonbeam, oldbeam, m) \<Rightarrow>
        if m then Inr nan_beam else deconvolve lib commonbeam oldbeam)"

definition convbeams_of :: "beamlib \<Rightarrow> beams \<Rightarrow> cube \<Rightarrow> error + beams" where
  "convbeams_of lib cbs c =
     (case map_err (convbeam_of lib)
             (zip (beams_list cbs) (zip (beams_list (beams c)) (mask c))) of
        Inl e \<Rightarrow> Inl e
      | Inr cvs \<Rightarrow>
          (case cvs of [] \<Rightarrow> Inl UnboundLocalError
           | _ \<Rightarrow>
               Inr \<lparr>majors = qarr (map (\<lambda>b. qvalue (major b)) cvs) (qunit (major (last cvs))),
                    minors = qarr (map (\<lambda>b. qvalue (minor b)) cvs) (qunit (minor (last cvs))),
                    pas = qarr (map (\<lambda>b. qvalue (to_unit Deg (pa b))) cvs) Deg\<rparr>))"

text \<open>
  Lines 636 to 661: the table. The first column has \<open>nchans\<close> rows, and a column
  of another length is refused.
\<close>

definition write_log :: "nat \<Rightarrow> beams \<Rightarrow> beams \<Rightarrow> pyfloat list \<Rightarrow> error + logtable" where
  "write_log nchans cbs cvs fs =
     (if list_all (\<lambda>col. length col = nchans)
           [avalues (majors cbs), avalues (minors cbs), avalues (pas cbs),
            avalues (majors cvs), avalues (minors cvs), avalues (pas cvs), fs]
      then Inr \<lparr>col_channel = map int [0..<nchans],
                target_bmaj = avalues (majors cbs), target_bmin = avalues (minors cbs),
                target_bpa = avalues (pas cbs),
                conv_bmaj = avalues (majors cvs), conv_bmin = avalues (minors cvs),
                conv_bpa = avalues (pas cvs), conv_factor = fs,
                unit_comment =
                  [None, Some (aunit (majors cbs)), Some (aunit (minors cbs)),
                   Some (aunit (pas cbs)), Some (aunit (majors cvs)),
                   Some (aunit (minors cvs)), Some (aunit (pas cvs)), None]\<rparr>
      else Inl ValueError)"

text \<open>Lines 590 to 663 for one cube.\<close>

definition conv_data :: "beamlib \<Rightarrow> string \<Rightarrow> nat \<Rightarrow> beams \<Rightarrow> cube \<Rightarrow> error + cube" where
  "conv_data lib md nchans cbs c =
     (case convbeams_of lib cbs c of
        Inl e \<Rightarrow> Inl e
      | Inr cvs \<Rightarrow>
          (case write_log nchans cbs cvs (getfacs lib c cvs) of
             Inl e \<Rightarrow> Inl e
           | Inr tab \<Rightarrow>
               Inr (c\<lparr>facs := Some (getfacs lib c cvs), convbeams := Some cvs,
                      commonbeams := Some cbs, logfiles := (logfiles c)(md \<mapsto> tab)\<rparr>)))"

text \<open>
  \<^verbatim>\<open>commonbeamer\<close>. With a mode that is neither of the two, \<^verbatim>\<open>commonbeams\<close> is
  never bound: the verbose listing reads it, and so does the loop over the cubes.
\<close>

definition commonbeamer ::
  "beamlib \<Rightarrow> cube list \<Rightarrow> nat \<Rightarrow> args \<Rightarrow> string \<Rightarrow> string \<Rightarrow> beam option \<Rightarrow> error + cube list"
  where
  "commonbeamer lib datadict nchans a cm md target_beam =
     (if md = ''natural'' then
        (case commonbeamer_natural lib datadict nchans a cm of
           Inl e \<Rightarrow> Inl e
         | Inr cbs \<Rightarrow> map_err (conv_data lib md nchans cbs) datadict)
      else if md = ''total'' then
        (case commonbeamer_total lib datadict nchans a cm target_beam of
           Inl e \<Rightarrow> Inl e
         | Inr (d, cbs) \<Rightarrow> map_err (conv_data lib md nchans cbs) d)
      else if verbose a \<or> datadict \<noteq> [] then Inl UnboundLocalError
      else Inr datadict)"

subsection \<open>readlogs\<close>

text \<open>Lines 746 to 781: the columns of the file, with arcsec and deg attached.\<close>

definition read_cube :: "string \<Rightarrow> cube \<Rightarrow> error + cube" where
  "read_cube md c =
     (case logfiles c md of
        None \<Rightarrow> Inl MissingLogError
      | Some tab \<Rightarrow>
          Inr (c\<lparr>facs := Some (conv_factor tab),
                 convbeams := Some \<lparr>majors = qarr (conv_bmaj tab) Arcsec,
                                    minors = qarr (conv_bmin tab) Arcsec,
                                    pas = qarr (conv_bpa tab) Deg\<rparr>,
                 commonbeams := Some \<lparr>majors = qarr (target_bmaj tab) Arcsec,
                                      minors = qarr (target_bmin tab) Arcsec,
                                      pas = qarr (target_bpa tab) Deg\<rparr>\<rparr>))"

definition readlogs :: "cube list \<Rightarrow> string \<Rightarrow> bool \<Rightarrow> error + cube list" where
  "readlogs datadict md verb =
     (case map_err (read_cube md) datadict of
        Inl e \<Rightarrow> Inl e
      | Inr d \<Rightarrow> if verb \<and> d = [] then Inl UnboundLocalError else Inr d)"

subsection \<open>The planning of main\<close>

text \<open>
  Lines 877 to 925. \<^verbatim>\<open>makedata\<close> reads the cubes from the files, which is outside
  the model, and refuses a cube whose two grid spacings differ; then the channel counts
  must agree, the masks are set, and the common beams are solved or read back.
\<close>

definition nchan :: "cube \<Rightarrow> nat" where
  "nchan c = length (avalues (majors (beams c)))"

definition target_of :: "(real \<times> real \<times> real) option \<Rightarrow> beam option" where
  "target_of t =
     (case t of None \<Rightarrow> None
      | Some (a, b, p) \<Rightarrow>
          Some \<lparr>major = quant (Fin a) Arcsec, minor = quant (Fin b) Arcsec,
                pa = quant (Fin p) Deg\<rparr>)"

definition plan :: "beamlib \<Rightarrow> args \<Rightarrow> cube list \<Rightarrow> error + cube list" where
  "plan lib a datadict =
     (case main_checks a of
        Inl e \<Rightarrow> Inl e
      | Inr t \<Rightarrow>
          (case datadict of [] \<Rightarrow> Inl IndexError
           | c0 # _ \<Rightarrow>
               if \<not> list_all (\<lambda>c. dx c = dy c) datadict then Inl GridError
               else if \<not> list_all (\<lambda>c. nchan c = nchan c0) datadict
               then Inl ChannelCountError
               else
                 (case masking lib (nchan c0)
                         (map_option (\<lambda>x. quant (Fin x) Arcsec) (cutoff a)) datadict of
                    Inl e \<Rightarrow> Inl e
                  | Inr d \<Rightarrow>
                      if \<not> uselogs a
                      then commonbeamer lib d (nchan c0) a (conv_mode a) (mode a) (target_of t)
                      else readlogs d (mode a) (verbose a))))"

subsection \<open>An instance of the library operations\<close>

text \<open>
  The properties below hold for every choice of the library operations. To run the
  model on concrete cubes, the operations are instantiated for beams that share their
  position angle, where convolving two Gaussian beams adds the squares of their axes and
  deconvolving subtracts them:
  \<^item> the common beam of no beam at all raises (the library looks for the largest
    beam of an empty array), the common beam of one beam is that beam, and otherwise
    it has the largest major and the largest minor axis;
  \<^item> a beam that is larger than the beam it is deconvolved from raises;
  \<^item> two beams are equal when their three fields are, in deg;
  \<^item> the flux factor is NaN when one of its arguments is, as the spec asks of it,
    and 1 otherwise: no property below depends on its value.
\<close>

fun fmax :: "pyfloat \<Rightarrow> pyfloat \<Rightarrow> pyfloat" where
  "fmax (Fin a) (Fin b) = Fin (max a b)"
| "fmax _ _ = NaN"

fun feq :: "pyfloat \<Rightarrow> pyfloat \<Rightarrow> bool" where
  "feq (Fin a) (Fin b) = (a = b)"
| "feq _ _ = False"

fun quad_sum :: "pyfloat \<Rightarrow> pyfloat \<Rightarrow> pyfloat" where
  "quad_sum (Fin a) (Fin b) = Fin (sqrt (a * a + b * b))"
| "quad_sum _ _ = NaN"

fun quad_diff :: "pyfloat \<Rightarrow> pyfloat \<Rightarrow> pyfloat" where
  "quad_diff (Fin a) (Fin b) = Fin (sqrt (a * a - b * b))"
| "quad_diff _ _ = NaN"

definition aligned_common_beam :: "real \<Rightarrow> int \<Rightarrow> real \<Rightarrow> beam list \<Rightarrow> error + beam" where
  "aligned_common_beam tol ns eps bs =
     (case bs of
        [] \<Rightarrow> Inl ValueError
      | [b] \<Rightarrow> Inr b
      | b # _ \<Rightarrow>
          Inr \<lparr>major = quant (foldr fmax (map (\<lambda>x. qvalue (to_unit Deg (major x))) bs) (Fin 0)) Deg,
               minor = quant (foldr fmax (map (\<lambda>x. qvalue (to_unit Deg (minor x))) bs) (Fin 0)) Deg,
               pa = pa b\<rparr>)"

definition aligned_convolve :: "beam \<Rightarrow> beam \<Rightarrow> beam" where
  "aligned_convolve a b =
     \<lparr>major = quant (quad_sum (qvalue (major a)) (qvalue (to_unit (qunit (major a)) (major b))))
                (qunit (major a)),
      minor = quant (quad_sum (qvalue (minor a)) (qvalue (to_unit (qunit (minor a)) (minor b))))
                (qunit (minor a)),
      pa = pa a\<rparr>"

definition aligned_deconvolve :: "beam \<Rightarrow> beam \<Rightarrow> error + beam" where
  "aligned_deconvolve a b =
     (if flt (qvalue (major a)) (qvalue (to_unit (qunit (major a)) (major b)))
         \<or> flt (qvalue (minor a)) (qvalue (to_unit (qunit (minor a)) (minor b)))
      then Inl ValueError
      else Inr \<lparr>major = quant (quad_diff (qvalue (major a))
                                  (qvalue (to_unit (qunit (major a)) (major b)))) (qunit (major a)),
                minor = quant (quad_diff (qvalue (minor a))
                                  (qvalue (to_unit (qunit (minor a)) (minor b)))) (qunit (minor a)),
                pa = pa a\<rparr>)"

definition exact_eq :: "beam \<Rightarrow> beam \<Rightarrow> bool" where
  "exact_eq a b =
     (feq (qvalue (to_unit Deg (major a))) (qvalue (to_unit Deg (major b)))
      \<and> feq (qvalue (to_unit Deg (minor a))) (qvalue (to_unit Deg (minor b)))
      \<and> feq (qvalue (to_unit Deg (pa a))) (qvalue (to_unit Deg (pa b))))"

definition nan_factor ::
  "pyfloat \<times> pyfloat \<times> pyfloat \<Rightarrow> pyfloat \<times> pyfloat \<times> pyfloat \<Rightarrow> pyfloat \<Rightarrow> pyfloat \<Rightarrow> pyfloat"
  where
  "nan_factor conv orig x y =
     (case (conv, orig) of
        ((a, b, p), (a', b', p')) \<Rightarrow>
          if list_ex is_nan [a, b, p, a', b', p', x, y] then NaN else Fin 1)"

definition aligned_lib :: beamlib where
  "aligned_lib =
     \<lparr>common_beam = aligned_common_beam, deconvolve = aligned_deconvolve,
      convolve = aligned_convolve, beam_eq = exact_eq, gauss_factor = nan_factor\<rparr>"

subsection \<open>Concrete inputs\<close>

text \<open>The defaults of the command line, for one file and no target beam.\<close>

definition default_args :: args where
  "default_args =
     \<lparr>mode = ''natural'', conv_mode = ''robust'', bmaj = None, bmin = None, bpa = None,
      infile = [''cube.fits''], cutoff = None, tolerance = 1 / 10000, nsamps = 200,
      epsilon = 5 / 10000, uselogs = False, verbose = False\<rparr>"

text \<open>A circular beam of the given width in arcsec, at position angle 0.\<close>

definition circ :: "real \<Rightarrow> beam" where
  "circ w = \<lparr>major = quant (Fin w) Arcsec, minor = quant (Fin w) Arcsec, pa = quant (Fin 0) Deg\<rparr>"

text \<open>A solver that does not converge at a tolerance of 1/20000 or more, and one that
  never does.\<close>

definition slow_lib :: beamlib where
  "slow_lib =
     aligned_lib\<lparr>common_beam :=
       (\<lambda>tol ns eps bs. if tol < 1 / 20000 then aligned_common_beam tol ns eps bs
                         else Inl BeamError)\<rparr>"

definition stuck_lib :: beamlib where
  "stuck_lib = aligned_lib\<lparr>common_beam := (\<lambda>tol ns eps bs. Inl BeamError)\<rparr>"

text \<open>A cube as \<^verbatim>\<open>main\<close> holds it before \<^verbatim>\<open>masking\<close>: square pixels of 2.5
  arcsec, no mask and no plan yet, no log on disk.\<close>

definition new_cube :: "beams \<Rightarrow> cube" where
  "new_cube bs =
     \<lparr>dx = quant (Fin (1 / 1440)) Deg, dy = quant (Fin (1 / 1440)) Deg, beams = bs, mask = [],
      facs = None, convbeams = None, commonbeams = None, logfiles = Map.empty\<rparr>"

text \<open>The example of the spec: major axes of 10, 12, NaN and 15 arcsec, minor axes of
  2 arcsec, position angle 0.\<close>

definition example_cube :: cube where
  "example_cube =
     new_cube \<lparr>majors = qarr [Fin 10, Fin 12, NaN, Fin 15] Arcsec,
               minors = qarr [Fin 2, Fin 2, Fin 2, Fin 2] Arcsec,
               pas = qarr [Fin 0, Fin 0, Fin 0, Fin 0] Deg\<rparr>"

text \<open>A cube of two channels: a circular beam of 10 arcsec, and the null beam by which
  the pipeline marks a channel without data.\<close>

definition flagged_cube :: cube where
  "flagged_cube =
     new_cube \<lparr>majors = qarr [Fin 10, Fin 0] Arcsec, minors = qarr [Fin 10, Fin 0] Arcsec,
               pas = qarr [Fin 0, Fin 0] Deg\<rparr>"

text \<open>A cube of one channel, which carries the null beam.\<close>

definition blank_cube :: cube where
  "blank_cube =
     new_cube \<lparr>majors = qarr [Fin 0] Arcsec, minors = qarr [Fin 0] Arcsec,
               pas = qarr [Fin 0] Deg\<rparr>"

subsection \<open>The mask as the spec states it\<close>

text \<open>
  The spec's description of the mask, to compare \<^verbatim>\<open>masking\<close> with: the union of the
  cutoff mask (empty without a cutoff) and the mask of the null beams.
\<close>

definition spec_cutmask :: "nat \<Rightarrow> quantity option \<Rightarrow> beams \<Rightarrow> bool list" where
  "spec_cutmask nchans cutq bs =
     (case cutq of None \<Rightarrow> replicate nchans False | Some q \<Rightarrow> cutmask q bs)"

definition spec_mask :: "beamlib \<Rightarrow> nat \<Rightarrow> quantity option \<Rightarrow> beams \<Rightarrow> bool list" where
  "spec_mask lib nchans cutq bs =
     map (\<lambda>(x, y). x \<or> y) (zip (spec_cutmask nchans cutq bs) (nullmask lib bs))"

subsection \<open>The laws of Gaussian beams behind the re-check\<close>

text \<open>
  Whether the replacement of the Nyquist check is sampled well enough depends on the
  geometry of the library. The two laws below are what the check relies on; they are
  stated on the axes in arcsec and the position angle in deg, for beams whose axes are
  finite and not negative.
  \<^item> \<open>convolve_law\<close>: convolving a beam \<open>c\<close> with a circular beam of width
    \<open>w\<close> gives a beam at the position angle of \<open>c\<close> (up to half turns, or at angle
    0), and a beam that can be deconvolved from \<open>c\<close> can be deconvolved from the
    result, leaving a minor axis of at least \<open>w\<close>.
  \<^item> \<open>deconvolve_law\<close>: deconvolution is monotone in the beam that is deconvolved
    from. A beam that can be deconvolved from \<open>x\<close> can be deconvolved from every beam
    at the same position angle whose axes are at least those of \<open>x\<close>, and the minor
    axis of the result does not shrink.
\<close>

definition maj_as :: "beam \<Rightarrow> pyfloat" where
  "maj_as b = qvalue (to_unit Arcsec (major b))"

definition min_as :: "beam \<Rightarrow> pyfloat" where
  "min_as b = qvalue (to_unit Arcsec (minor b))"

definition pa_deg :: "beam \<Rightarrow> pyfloat" where
  "pa_deg b = qvalue (to_unit Deg (pa b))"

definition valid_beam :: "beam \<Rightarrow> bool" where
  "valid_beam b =
     (case maj_as b of NaN \<Rightarrow> False
      | Fin a \<Rightarrow> (case min_as b of NaN \<Rightarrow> False | Fin m \<Rightarrow> 0 \<le> m \<and> 0 \<le> a))"

definition pa_kept :: "pyfloat \<Rightarrow> pyfloat \<Rightarrow> bool" where
  "pa_kept p p' =
     (case p of NaN \<Rightarrow> False
      | Fin y \<Rightarrow> (case p' of NaN \<Rightarrow> False | Fin y' \<Rightarrow> y' = 0 \<or> (y' - y) / 180 \<in> \<int>))"

definition convolve_law :: "beamlib \<Rightarrow> bool" where
  "convolve_law lib =
     (\<forall>c q w.
        valid_beam c \<and> \<not> is_nan (pa_deg c) \<and> qvalue (to_unit Arcsec q) = Fin w \<and> 0 \<le> w \<longrightarrow>
          valid_beam (convolve lib c \<lparr>major = q, minor = q, pa = quant (Fin 0) Deg\<rparr>)
          \<and> pa_kept (pa_deg c)
                (pa_deg (convolve lib c \<lparr>major = q, minor = q, pa = quant (Fin 0) Deg\<rparr>))
          \<and> (\<forall>b d. valid_beam b \<and> deconvolve lib c b = Inr d \<longrightarrow>
                (\<exists>d'. deconvolve lib
                         (convolve lib c \<lparr>major = q, minor = q, pa = quant (Fin 0) Deg\<rparr>) b
                       = Inr d'
                     \<and> fle (Fin w) (min_as d'))))"

definition deconvolve_law :: "beamlib \<Rightarrow> bool" where
  "deconvolve_law lib =
     (\<forall>x x' b d.
        valid_beam b \<and> valid_beam x \<and> deconvolve lib x b = Inr d
        \<and> \<not> is_nan (pa_deg x) \<and> pa_deg x' = pa_deg x
        \<and> fle (maj_as x) (maj_as x') \<and> fle (min_as x) (min_as x') \<longrightarrow>
          (\<exists>d'. deconvolve lib x' b = Inr d' \<and> fle (min_as d) (min_as d')))"

text \<open>A sample count of at least 2, for a minor axis and a grid spacing in arcsec.\<close>

fun sampled :: "pyfloat \<Rightarrow> pyfloat \<Rightarrow> bool" where
  "sampled (Fin m) (Fin g) = (2 \<le> m / g)"
| "sampled _ _ = False"

section \<open>Properties\<close>

subsection \<open>The partition\<close>

lemma my_start_eq:
  "my_start n r d = r * (d div n) + min r (d mod n)"
  by (simp add: my_start_def Let_def algebra_simps)

lemma my_end_eq:
  "my_end n r d = my_start n (r + 1) d - 1"
  by (simp add: my_end_def my_start_def Let_def algebra_simps)

lemma my_start_mono:
  assumes "0 \<le> d" "1 \<le> n" "r \<le> s"
  shows "my_start n r d \<le> my_start n s d"
proof -
  have "0 \<le> d div n" using assms by (simp add: pos_imp_zdiv_nonneg_iff)
  then have "r * (d div n) \<le> s * (d div n)" using assms by (simp add: mult_right_mono)
  moreover have "min r (d mod n) \<le> min s (d mod n)" using assms by simp
  ultimately show ?thesis by (simp add: my_start_eq)
qed

lemma my_start_0: "my_start n 0 d = min 0 (d mod n)"
  by (simp add: my_start_eq)

lemma my_start_top:
  assumes "1 \<le> n"
  shows "my_start n n d = d"
proof -
  have "d mod n < n" using assms by simp
  then show ?thesis by (simp add: my_start_eq min_def)
qed

lemma union_steps:
  fixes f :: "nat \<Rightarrow> int"
  assumes "\<And>k. k < m \<Longrightarrow> f k \<le> f (Suc k)"
  shows "(\<Union>k<m. {f k ..< f (Suc k)}) = {f 0 ..< f m}"
  using assms
proof (induction m)
  case 0
  then show ?case by simp
next
  case (Suc m)
  have mono: "f 0 \<le> f m" using Suc.prems
  proof (induction m)
    case 0
    then show ?case by simp
  next
    case (Suc j)
    then show ?case by (meson lessI less_SucI order_trans)
  qed
  have "(\<Union>k<Suc m. {f k ..< f (Suc k)}) = (\<Union>k<m. {f k ..< f (Suc k)}) \<union> {f m ..< f (Suc m)}"
    by (simp add: lessThan_Suc Un_commute)
  also have "\<dots> = {f 0 ..< f m} \<union> {f m ..< f (Suc m)}"
    using Suc by simp
  also have "\<dots> = {f 0 ..< f (Suc m)}"
    using mono Suc.prems [of m] by (simp add: ivl_disj_un)
  finally show ?case .
qed

lemma my_tasks_eq:
  assumes "1 \<le> n" "0 \<le> r" "r < n" "d = int (length xs)"
  shows "my_tasks n r xs =
     take (nat (my_start n (r + 1) d) - nat (my_start n r d)) (drop (nat (my_start n r d)) xs)"
proof -
  have d0: "0 \<le> d" using assms by simp
  have s0: "0 \<le> my_start n r d"
    using my_start_mono [of d n 0 r] assms d0 by (simp add: my_start_0)
  have s1: "my_start n r d \<le> my_start n (r + 1) d"
    using my_start_mono [of d n r "r + 1"] assms d0 by simp
  have s2: "my_start n (r + 1) d \<le> d"
    using my_start_mono [of d n "r + 1" n] assms d0 by (simp add: my_start_top)
  show ?thesis
    using s0 s1 s2 assms(4)
    by (simp add: my_tasks_def py_slice_def slice_bound_def my_end_eq Let_def nat_diff_distrib)
qed

lemma concat_steps:
  fixes g :: "nat \<Rightarrow> nat"
  assumes "\<And>k. k < m \<Longrightarrow> g k \<le> g (Suc k)" "g 0 = 0"
  shows "concat (map (\<lambda>k. take (g (Suc k) - g k) (drop (g k) xs)) [0..<m]) = take (g m) xs"
  using assms(1)
proof (induction m)
  case 0
  then show ?case by (simp add: assms(2))
next
  case (Suc m)
  have "take (g m) xs @ take (g (Suc m) - g m) (drop (g m) xs) = take (g m + (g (Suc m) - g m)) xs"
    by (simp add: take_add)
  then show ?case using Suc by simp
qed

text \<open>
  Claim C9. For every worker count \<open>n \<ge> 1\<close> and task count \<open>d \<ge> 0\<close>, the index
  ranges \<open>my_start .. my_end\<close> of the ranks \<open>0 .. n - 1\<close> are intervals whose union
  is exactly \<open>0 .. d - 1\<close>, the ranges of two different ranks are disjoint, rank
  \<open>r\<close> gets \<open>d div n\<close> tasks and one more when \<open>r < d mod n\<close>, and the slices
  \<^verbatim>\<open>inputs[my_start:my_end+1]\<close> of the ranks, put one after the other, are the task
  list itself. Each range is computed from \<open>(n, r, d)\<close> alone.
\<close>

theorem partition_exact:
  assumes "1 \<le> n" "0 \<le> d"
  shows "(\<Union>r\<in>{0..<n}. {my_start n r d .. my_end n r d}) = {0..<d}
    \<and> (\<forall>r s. 0 \<le> r \<and> r < s \<and> s < n \<longrightarrow>
          {my_start n r d .. my_end n r d} \<inter> {my_start n s d .. my_end n s d} = {})
    \<and> (\<forall>r. 0 \<le> r \<and> r < n \<longrightarrow>
          my_end n r d + 1 - my_start n r d = d div n + (if r < d mod n then 1 else 0))
    \<and> (\<forall>xs. int (length xs) = d \<longrightarrow>
          concat (map (\<lambda>r. my_tasks n (int r) xs) [0..<nat n]) = xs)"
proof (intro conjI allI impI)
  define f where "f k = my_start n (int k) d" for k
  have step: "f k \<le> f (Suc k)" for k
    using my_start_mono [of d n "int k" "int k + 1"] assms by (simp add: f_def add.commute)
  have iv: "{my_start n r d .. my_end n r d} = {my_start n r d ..< my_start n (r + 1) d}" for r
    by (auto simp: my_end_eq)
  have "(\<Union>r\<in>{0..<n}. {my_start n r d .. my_end n r d}) = (\<Union>k<nat n. {f k ..< f (Suc k)})"
  proof (rule set_eqI, rule iffI)
    fix x assume "x \<in> (\<Union>r\<in>{0..<n}. {my_start n r d .. my_end n r d})"
    then obtain r where r: "0 \<le> r" "r < n" "x \<in> {my_start n r d ..< my_start n (r + 1) d}"
      using iv by auto
    then have "nat r < nat n" "x \<in> {f (nat r) ..< f (Suc (nat r))}"
      by (simp_all add: f_def add.commute)
    then show "x \<in> (\<Union>k<nat n. {f k ..< f (Suc k)})" by blast
  next
    fix x assume "x \<in> (\<Union>k<nat n. {f k ..< f (Suc k)})"
    then obtain k where k: "k < nat n" "x \<in> {f k ..< f (Suc k)}" by blast
    then have "int k \<in> {0..<n}" "x \<in> {my_start n (int k) d .. my_end n (int k) d}"
      by (simp_all add: f_def iv add.commute)
    then show "x \<in> (\<Union>r\<in>{0..<n}. {my_start n r d .. my_end n r d})" by blast
  qed
  also have "\<dots> = {f 0 ..< f (nat n)}"
    using union_steps [of "nat n" f] step by simp
  also have "\<dots> = {0 ..< d}"
    using assms by (simp add: f_def my_start_0 my_start_top)
  finally show "(\<Union>r\<in>{0..<n}. {my_start n r d .. my_end n r d}) = {0..<d}" .
next
  fix r s assume rs: "0 \<le> r \<and> r < s \<and> s < n"
  have "my_start n (r + 1) d \<le> my_start n s d"
    using my_start_mono [of d n "r + 1" s] assms rs by simp
  then show "{my_start n r d .. my_end n r d} \<inter> {my_start n s d .. my_end n s d} = {}"
    by (auto simp: my_end_eq)
next
  fix r assume "0 \<le> r \<and> r < n"
  show "my_end n r d + 1 - my_start n r d = d div n + (if r < d mod n then 1 else 0)"
    by (simp add: my_end_def Let_def)
next
  fix xs :: "'a list" assume len: "int (length xs) = d"
  define g where "g k = nat (my_start n (int k) d)" for k
  have step: "g k \<le> g (Suc k)" for k
    using my_start_mono [of d n "int k" "int k + 1"] assms by (simp add: g_def add.commute)
  have g0: "g 0 = 0" using assms by (simp add: g_def my_start_0)
  have gn: "g (nat n) = length xs" using assms len by (auto simp add: g_def my_start_top)
  have "map (\<lambda>r. my_tasks n (int r) xs) [0..<nat n]
      = map (\<lambda>k. take (g (Suc k) - g k) (drop (g k) xs)) [0..<nat n]"
  proof (rule map_cong [OF refl])
    fix k assume "k \<in> set [0..<nat n]"
    then have k: "0 \<le> int k" "int k < n" by auto
    show "my_tasks n (int k) xs = take (g (Suc k) - g k) (drop (g k) xs)"
      using my_tasks_eq [OF assms(1) k, of d xs] len by (simp add: g_def add.commute)
  qed
  then have "concat (map (\<lambda>r. my_tasks n (int r) xs) [0..<nat n])
      = concat (map (\<lambda>k. take (g (Suc k) - g k) (drop (g k) xs)) [0..<nat n])"
    by (rule arg_cong)
  also have "\<dots> = take (g (nat n)) xs"
    using concat_steps [of "nat n" g xs] step g0 by blast
  finally show "concat (map (\<lambda>r. my_tasks n (int r) xs) [0..<nat n]) = xs"
    using gn by simp
qed

theorem partition_exact_witness:
  "(1::int) \<le> 3 \<and> (0::int) \<le> 10
   \<and> (\<Union>r\<in>{0..<3::int}. {my_start 3 r 10 .. my_end 3 r 10}) = {0..<10}
   \<and> my_tasks 3 0 [0, 1, 2, 3, 4, 5, 6, 7, 8, 9 :: nat] = [0, 1, 2, 3]
   \<and> my_tasks 3 1 [0, 1, 2, 3, 4, 5, 6, 7, 8, 9 :: nat] = [4, 5, 6]
   \<and> my_tasks 3 2 [0, 1, 2, 3, 4, 5, 6, 7, 8, 9 :: nat] = [7, 8, 9]"
proof -
  have cover: "(\<Union>r\<in>{0..<3::int}. {my_start 3 r 10 .. my_end 3 r 10}) = {0..<10}"
    by (rule partition_exact [of 3 10, THEN conjunct1]) simp_all
  have slices:
    "my_tasks 3 0 [0, 1, 2, 3, 4, 5, 6, 7, 8, 9 :: nat] = [0, 1, 2, 3]"
    "my_tasks 3 1 [0, 1, 2, 3, 4, 5, 6, 7, 8, 9 :: nat] = [4, 5, 6]"
    "my_tasks 3 2 [0, 1, 2, 3, 4, 5, 6, 7, 8, 9 :: nat] = [7, 8, 9]"
    by (simp_all add: my_tasks_def my_start_def my_end_def py_slice_def slice_bound_def Let_def)
  show ?thesis using cover slices by simp
qed

subsection \<open>Quantities\<close>

lemma qvalue_quant [simp]: "qvalue (quant x u) = x"
  by (simp add: quant_def)

lemma qunit_quant [simp]: "qunit (quant x u) = u"
  by (simp add: quant_def)

lemma to_unit_same: "to_unit u (quant x u) = quant x u"
  by (cases x; cases u) (simp_all add: to_unit_def quant_def)

lemma is_nan_to_unit: "is_nan (qvalue (to_unit u q)) = is_nan (qvalue q)"
  by (cases "qvalue q") (simp_all add: to_unit_def quant_def)

lemma beam_isnan_circ [simp]: "beam_isnan (circ w) = False"
  by (simp add: beam_isnan_def beam_area_def circ_def to_unit_def)

subsection \<open>The mode check\<close>

lemma check_mode_passes: "check_mode m = Inr ()"
  by (auto simp: check_mode_def)

text \<open>
  Claim C8 (not met by the code). A mode that is neither \<^verbatim>\<open>natural\<close> nor
  \<^verbatim>\<open>total\<close> should be refused by the checks of \<^verbatim>\<open>main\<close>. The condition of the
  check can never hold, so the mode \<^verbatim>\<open>foo\<close> passes every check of the configuration.
\<close>

theorem bad_mode_accepted:
  "main_checks (default_args\<lparr>mode := ''foo''\<rparr>) = Inr None"
  by (simp add: main_checks_def check_mode_def check_conv_mode_def check_target_def
      check_files_def default_args_def)

subsection \<open>The retry of the solver\<close>

text \<open>
  Claim C4. When the search raises \<^verbatim>\<open>BeamError\<close> at the configured tolerance, the
  solver is called exactly once more, with a tenth of the tolerance and the same
  \<^verbatim>\<open>nsamps\<close> and \<^verbatim>\<open>epsilon\<close>; the outcome of that second call is the outcome of
  the block, and when it is an exception (of any kind), the common-beam computation of
  either mode ends with that exception.
\<close>

theorem retry_once:
  assumes "common_beam lib (tolerance a) (nsamps a) (epsilon a) (filter (\<lambda>b. \<not> beam_isnan b) bs)
             = Inl BeamError"
  shows "fst (common_beam_retry lib a (filter (\<lambda>b. \<not> beam_isnan b) bs))
           = [(tolerance a, nsamps a, epsilon a), (tolerance a * 0.1, nsamps a, epsilon a)]
    \<and> snd (common_beam_retry lib a (filter (\<lambda>b. \<not> beam_isnan b) bs))
           = common_beam lib (tolerance a * 0.1) (nsamps a) (epsilon a)
               (filter (\<lambda>b. \<not> beam_isnan b) bs)
    \<and> (\<forall>e. common_beam lib (tolerance a * 0.1) (nsamps a) (epsilon a)
               (filter (\<lambda>b. \<not> beam_isnan b) bs) = Inl e
          \<longrightarrow> total_common lib a cm grid bs target_beam = Inl e
              \<and> (\<not> list_all beam_isnan bs \<longrightarrow> natural_common lib a cm grid bs = Inl e))"
  using assms by (simp add: common_beam_retry_def total_common_def natural_common_def)

theorem retry_once_witness:
  "common_beam slow_lib (tolerance default_args) (nsamps default_args) (epsilon default_args)
      [circ 10] = Inl BeamError
   \<and> common_beam_retry slow_lib default_args [circ 10]
       = ([(1 / 10000, 200, 5 / 10000), (1 / 100000, 200, 5 / 10000)], Inr (circ 10))
   \<and> total_common stuck_lib default_args ''robust'' (quant (Fin (1 / 1440)) Deg) [circ 10] None
       = Inl BeamError
   \<and> natural_common stuck_lib default_args ''robust'' (quant (Fin (1 / 1440)) Deg) [circ 10]
       = Inl BeamError"
proof -
  have 1: "common_beam slow_lib (tolerance default_args) (nsamps default_args)
      (epsilon default_args) (filter (\<lambda>b. \<not> beam_isnan b) [circ 10]) = Inl BeamError"
    by (simp add: slow_lib_def default_args_def)
  have 2: "common_beam stuck_lib (tolerance default_args) (nsamps default_args)
      (epsilon default_args) (filter (\<lambda>b. \<not> beam_isnan b) [circ 10]) = Inl BeamError"
    by (simp add: stuck_lib_def)
  have 3: "common_beam stuck_lib (tolerance default_args * 0.1) (nsamps default_args)
      (epsilon default_args) (filter (\<lambda>b. \<not> beam_isnan b) [circ 10]) = Inl BeamError"
    by (simp add: stuck_lib_def)
  have 4: "common_beam slow_lib (tolerance default_args * 0.1) (nsamps default_args)
      (epsilon default_args) (filter (\<lambda>b. \<not> beam_isnan b) [circ 10]) = Inr (circ 10)"
    by (simp add: slow_lib_def default_args_def aligned_common_beam_def)
  have a: "common_beam_retry slow_lib default_args [circ 10]
       = ([(1 / 10000, 200, 5 / 10000), (1 / 100000, 200, 5 / 10000)], Inr (circ 10))"
    using retry_once [OF 1, of "''robust''" "quant (Fin (1 / 1440)) Deg" None] 4
    by (simp add: prod_eq_iff default_args_def)
  have b: "total_common stuck_lib default_args ''robust'' (quant (Fin (1 / 1440)) Deg) [circ 10] None
       = Inl BeamError
     \<and> natural_common stuck_lib default_args ''robust'' (quant (Fin (1 / 1440)) Deg) [circ 10]
       = Inl BeamError"
    using retry_once [OF 2, of "''robust''" "quant (Fin (1 / 1440)) Deg" None] 3
    by simp
  show ?thesis using 1 a b by simp
qed

subsection \<open>The rounding\<close>

lemma my_ceil_idem: "my_ceil (my_ceil x p) p = my_ceil x p"
  by (cases x) simp_all

lemma round_up_idem: "round_up (round_up x p) p = round_up x p"
  by (cases x) simp_all

lemma ceil_ge: "x \<le> of_int \<lceil>x * 10 ^ p\<rceil> / (10 ^ p :: real)"
proof -
  have "x * 10 ^ p \<le> of_int \<lceil>x * 10 ^ p\<rceil>" by (rule le_of_int_ceiling)
  then show ?thesis by (simp add: pos_le_divide_eq)
qed

lemma my_ceil_ge: "\<not> is_nan x \<Longrightarrow> fle x (my_ceil x p)"
  by (cases x) (simp_all add: ceil_ge)

lemma round_up_ge: "\<not> is_nan x \<Longrightarrow> fle x (round_up x p)"
  by (cases x) (simp_all add: ceil_ge)

text \<open>
  Claim C5. The rounding of a solved beam is idempotent, and it is a ceiling: on every
  field that is not NaN, the rounded beam is at least the beam, the axes compared in
  arcsec and the position angle in deg. (The two helpers are modelled from the spec.)
\<close>

theorem rounding_is_ceiling:
  "round_beam (round_beam b) = round_beam b
   \<and> (\<not> is_nan (qvalue (major b)) \<longrightarrow>
        fle (qvalue (to_unit Arcsec (major b))) (qvalue (to_unit Arcsec (major (round_beam b)))))
   \<and> (\<not> is_nan (qvalue (minor b)) \<longrightarrow>
        fle (qvalue (to_unit Arcsec (minor b))) (qvalue (to_unit Arcsec (minor (round_beam b)))))
   \<and> (\<not> is_nan (qvalue (pa b)) \<longrightarrow>
        fle (qvalue (to_unit Deg (pa b))) (qvalue (to_unit Deg (pa (round_beam b)))))"
proof -
  have idem: "round_beam (round_beam b) = round_beam b"
    by (simp add: round_beam_def to_unit_same my_ceil_idem round_up_idem)
  have ge: "\<not> is_nan (qvalue q) \<Longrightarrow> fle (qvalue (to_unit u q)) (my_ceil (qvalue (to_unit u q)) p)"
    for q u p
    by (rule my_ceil_ge) (simp add: is_nan_to_unit)
  have ge': "\<not> is_nan (qvalue q) \<Longrightarrow> fle (qvalue (to_unit u q)) (round_up (qvalue (to_unit u q)) p)"
    for q u p
    by (rule round_up_ge) (simp add: is_nan_to_unit)
  show ?thesis
    using idem ge ge' by (simp add: round_beam_def to_unit_same)
qed

theorem rounding_is_ceiling_witness:
  "round_beam (round_beam \<lparr>major = quant (Fin (1234 / 100)) Arcsec, minor = quant (Fin (1 / 360)) Deg,
       pa = quant (Fin (45678 / 1000)) Deg\<rparr>)
     = \<lparr>major = quant (Fin (124 / 10)) Arcsec, minor = quant (Fin 10) Arcsec,
        pa = quant (Fin (4568 / 100)) Deg\<rparr>
   \<and> fle (Fin (1234 / 100)) (Fin (124 / 10))"
  using rounding_is_ceiling [of "\<lparr>major = quant (Fin (1234 / 100)) Arcsec,
       minor = quant (Fin (1 / 360)) Deg, pa = quant (Fin (45678 / 1000)) Deg\<rparr>"]
  by (simp add: round_beam_def to_unit_def quant_def)

subsection \<open>Loops that may raise\<close>

lemma map_err_ok:
  assumes "\<And>x. x \<in> set xs \<Longrightarrow> f x = Inr (g x)"
  shows "map_err f xs = Inr (map g xs)"
  using assms by (induction xs) simp_all

lemma map_err_rel:
  assumes "map_err f xs = Inr ys" "\<And>x y. x \<in> set xs \<Longrightarrow> f x = Inr y \<Longrightarrow> P x y"
  shows "list_all2 P xs ys"
  using assms
proof (induction xs arbitrary: ys)
  case Nil
  then show ?case by simp
next
  case (Cons x xs)
  then show ?case by (auto split: sum.splits)
qed

text \<open>The definitions that a run of the model on a concrete input unfolds.\<close>

lemmas run_defs =
  plan_def main_checks_def check_mode_def check_conv_mode_def check_target_def check_files_def
  default_args_def target_of_def nchan_def
  masking_def add_cutmask_def add_nullmask_def mask_add_def cutmask_def nullmask_def
  commonbeamer_def commonbeamer_natural_def commonbeamer_total_def channel_beams_def
  masked_entry_def with_units_of_def beams_of_values_def natural_common_def total_common_def
  common_beam_retry_def nyquist_natural_def nyquist_total_def round_beam_def
  mask_stored_def nan_where_def big_beams_total_def broadcast_beam_def
  conv_data_def convbeams_of_def convbeam_of_def getfacs_def write_log_def
  readlogs_def read_cube_def
  beams_list_def beams_get_def list_get_def qarr_def to_unit_def quant_def
  beam_isnan_def beam_area_def nan_beam_def nullbeam_def
  aligned_lib_def aligned_common_beam_def aligned_deconvolve_def aligned_convolve_def
  exact_eq_def nan_factor_def new_cube_def

subsection \<open>masking\<close>

lemma mask_add_same_length:
  "length other = length m \<Longrightarrow> mask_add m other = Inr (map (\<lambda>(x, y). x \<or> y) (zip m other))"
  by (simp add: mask_add_def)

lemma mask_add_False:
  "length other = n \<Longrightarrow> mask_add (replicate n False) other = Inr other"
  by (simp add: mask_add_def list_eq_iff_nth_eq)

lemma masking_eq:
  assumes "list_all (\<lambda>c. length (avalues (majors (beams c))) = nchans
                        \<and> length (beams_list (beams c)) = nchans) datadict"
  shows "masking lib nchans cutq datadict
           = Inr (map (\<lambda>c. c\<lparr>mask := spec_mask lib nchans cutq (beams c)\<rparr>) datadict)"
proof -
  let ?d0 = "map (\<lambda>c. c\<lparr>mask := replicate nchans False\<rparr>) datadict"
  let ?d1 = "map (\<lambda>c. c\<lparr>mask := spec_cutmask nchans cutq (beams c)\<rparr>) datadict"
  have len: "\<And>c. c \<in> set datadict \<Longrightarrow> length (spec_cutmask nchans cutq (beams c)) = nchans
      \<and> length (nullmask lib (beams c)) = nchans"
    using assms
    by (auto simp: list_all_iff cutmask_def nullmask_def spec_cutmask_def split: option.splits)
  have s1: "(case cutq of None \<Rightarrow> Inr ?d0 | Some q \<Rightarrow> map_err (add_cutmask q) ?d0) = Inr ?d1"
  proof (cases cutq)
    case None
    then show ?thesis by (simp add: spec_cutmask_def)
  next
    case (Some q)
    have "map_err (add_cutmask q) ?d0 = Inr (map (\<lambda>c. c\<lparr>mask := cutmask q (beams c)\<rparr>) ?d0)"
      by (rule map_err_ok)
        (use len Some in \<open>auto simp: add_cutmask_def mask_add_False spec_cutmask_def\<close>)
    then show ?thesis using Some by (simp add: comp_def spec_cutmask_def)
  qed
  have s2: "map_err (add_nullmask lib) ?d1
      = Inr (map (\<lambda>c. c\<lparr>mask := spec_mask lib nchans cutq (beams c)\<rparr>) ?d1)"
    by (rule map_err_ok)
      (use len in \<open>auto simp: add_nullmask_def mask_add_same_length spec_mask_def\<close>)
  show ?thesis
    unfolding masking_def Let_def s1 using s2 by (simp add: comp_def)
qed

lemma mask_add_commute:
  "(case mask_add m x of Inl e \<Rightarrow> Inl e | Inr m1 \<Rightarrow> mask_add m1 y)
     = (case mask_add m y of Inl e \<Rightarrow> Inl e | Inr m1 \<Rightarrow> mask_add m1 x)"
  by (auto simp: mask_add_def list_eq_iff_nth_eq)

lemma sources_commute:
  "(case add_cutmask q c of Inl e \<Rightarrow> Inl e | Inr c1 \<Rightarrow> add_nullmask lib c1)
     = (case add_nullmask lib c of Inl e \<Rightarrow> Inl e | Inr c1 \<Rightarrow> add_cutmask q c1)"
  using mask_add_commute [where m = "mask c" and x = "cutmask q (beams c)"
      and y = "nullmask lib (beams c)"]
  by (auto simp: add_cutmask_def add_nullmask_def split: sum.splits)

lemma spec_mask_nth:
  assumes "length (avalues (majors bs)) = nchans" "length (beams_list bs) = nchans" "i < nchans"
  shows "spec_mask lib nchans cutq bs ! i
     = ((case cutq of None \<Rightarrow> False
         | Some q \<Rightarrow> fgt (avalues (majors bs) ! i) (qvalue (to_unit (aunit (majors bs)) q)))
        \<or> beam_eq lib (beams_list bs ! i) nullbeam)"
  using assms
  by (cases cutq) (simp_all add: spec_mask_def spec_cutmask_def cutmask_def nullmask_def)

text \<open>
  Claim C7, as the code has it. For cubes whose beam arrays have \<open>nchans\<close> entries,
  \<^verbatim>\<open>masking\<close> sets the mask of every cube to the union of the cutoff mask and the
  null-beam mask: channel \<open>i\<close> is masked exactly when its major axis is greater than
  the cutoff (a comparison that is false for NaN) or its beam equals the null beam.
  Masking the result again gives the same result, and adding the two masks in the other
  order gives the same cube. For the major axes 10, 12, NaN and 15 arcsec and a cutoff of
  14 arcsec the mask is False, False, False, True: \<^verbatim>\<open>masking\<close> does not mask the NaN
  channel.
\<close>

theorem masking_union:
  assumes "list_all (\<lambda>c. length (avalues (majors (beams c))) = nchans
                        \<and> length (beams_list (beams c)) = nchans) datadict"
  shows "masking lib nchans cutq datadict
           = Inr (map (\<lambda>c. c\<lparr>mask := spec_mask lib nchans cutq (beams c)\<rparr>) datadict)
    \<and> masking lib nchans cutq
          (map (\<lambda>c. c\<lparr>mask := spec_mask lib nchans cutq (beams c)\<rparr>) datadict)
        = Inr (map (\<lambda>c. c\<lparr>mask := spec_mask lib nchans cutq (beams c)\<rparr>) datadict)
    \<and> (\<forall>q c. (case add_cutmask q c of Inl e \<Rightarrow> Inl e | Inr c1 \<Rightarrow> add_nullmask lib c1)
             = (case add_nullmask lib c of Inl e \<Rightarrow> Inl e | Inr c1 \<Rightarrow> add_cutmask q c1))
    \<and> (\<forall>c i. c \<in> set datadict \<and> i < nchans \<longrightarrow>
          spec_mask lib nchans cutq (beams c) ! i
            = ((case cutq of None \<Rightarrow> False
                | Some q \<Rightarrow> fgt (avalues (majors (beams c)) ! i)
                              (qvalue (to_unit (aunit (majors (beams c))) q)))
               \<or> beam_eq lib (beams_list (beams c) ! i) nullbeam))"
proof (intro conjI allI impI)
  show "masking lib nchans cutq datadict
           = Inr (map (\<lambda>c. c\<lparr>mask := spec_mask lib nchans cutq (beams c)\<rparr>) datadict)"
    by (rule masking_eq [OF assms])
next
  let ?d = "map (\<lambda>c. c\<lparr>mask := spec_mask lib nchans cutq (beams c)\<rparr>) datadict"
  have "list_all (\<lambda>c. length (avalues (majors (beams c))) = nchans
                        \<and> length (beams_list (beams c)) = nchans) ?d"
    using assms by (simp add: list_all_iff)
  then have "masking lib nchans cutq ?d
      = Inr (map (\<lambda>c. c\<lparr>mask := spec_mask lib nchans cutq (beams c)\<rparr>) ?d)"
    by (rule masking_eq)
  then show "masking lib nchans cutq ?d = Inr ?d" by (simp add: comp_def)
next
  fix q c
  show "(case add_cutmask q c of Inl e \<Rightarrow> Inl e | Inr c1 \<Rightarrow> add_nullmask lib c1)
             = (case add_nullmask lib c of Inl e \<Rightarrow> Inl e | Inr c1 \<Rightarrow> add_cutmask q c1)"
    by (rule sources_commute)
next
  fix c i assume "c \<in> set datadict \<and> i < nchans"
  then show "spec_mask lib nchans cutq (beams c) ! i
            = ((case cutq of None \<Rightarrow> False
                | Some q \<Rightarrow> fgt (avalues (majors (beams c)) ! i)
                              (qvalue (to_unit (aunit (majors (beams c))) q)))
               \<or> beam_eq lib (beams_list (beams c) ! i) nullbeam)"
    using assms by (intro spec_mask_nth) (auto simp: list_all_iff)
qed

theorem masking_union_witness:
  "masking aligned_lib 4 (Some (quant (Fin 14) Arcsec)) [example_cube]
     = Inr [example_cube\<lparr>mask := [False, False, False, True]\<rparr>]"
proof -
  have wf: "list_all (\<lambda>c. length (avalues (majors (beams c))) = 4
                        \<and> length (beams_list (beams c)) = 4) [example_cube]"
    by (simp add: example_cube_def new_cube_def beams_list_def qarr_def)
  have m: "spec_mask aligned_lib 4 (Some (quant (Fin 14) Arcsec)) (beams example_cube)
      = [False, False, False, True]"
    by (simp add: spec_mask_def spec_cutmask_def cutmask_def nullmask_def example_cube_def
        new_cube_def beams_list_def qarr_def to_unit_def aligned_lib_def exact_eq_def
        nullbeam_def quant_def)
  show ?thesis
    using masking_union [OF wf, of aligned_lib "Some (quant (Fin 14) Arcsec)"] m by simp
qed

theorem example_mask_counterexample:
  "masking aligned_lib 4 (Some (quant (Fin 14) Arcsec)) [example_cube]
     \<noteq> Inr [example_cube\<lparr>mask := [False, False, True, True]\<rparr>]"
proof -
  have "masking aligned_lib 4 (Some (quant (Fin 14) Arcsec)) [example_cube]
     = Inr [example_cube\<lparr>mask := [False, False, False, True]\<rparr>]"
    by (simp add: run_defs example_cube_def eval_nat_numeral)
  moreover have "mask (example_cube\<lparr>mask := [False, False, False, True]\<rparr>)
      \<noteq> mask (example_cube\<lparr>mask := [False, False, True, True]\<rparr>)"
    by simp
  ultimately show ?thesis by (metis list.inject sum.inject(2))
qed

subsection \<open>The stored beams\<close>

lemma conv_data_frame:
  assumes "conv_data lib md n cbs c = Inr c'"
  shows "beams c' = beams c \<and> mask c' = mask c"
  using assms by (auto simp: conv_data_def split: sum.splits)

lemma nan_where_length:
  assumes "nan_where m xs = Inr ys"
  shows "length (avalues ys) = length (avalues xs) \<and> length m = length (avalues xs)
    \<and> aunit ys = aunit xs
    \<and> (\<forall>i. i < length m \<and> \<not> m ! i \<longrightarrow> avalues ys ! i = avalues xs ! i)"
  using assms by (auto simp: nan_where_def qarr_def split: if_splits)

lemma mask_stored_frame:
  assumes "mask_stored c = Inr c'"
  shows "mask c' = mask c"
    and "\<not> mask c ! i \<Longrightarrow> beams_get (beams c') i = beams_get (beams c) i"
proof -
  obtain mj mn p where
    mj: "nan_where (mask c) (majors (beams c)) = Inr mj" and
    mn: "nan_where (mask c) (minors (beams c)) = Inr mn" and
    p: "nan_where (mask c) (pas (beams c)) = Inr p" and
    c': "c' = c\<lparr>beams := \<lparr>majors = mj, minors = mn, pas = p\<rparr>\<rparr>"
    using assms by (auto simp: mask_stored_def split: sum.splits)
  show "mask c' = mask c" using c' by simp
  assume "\<not> mask c ! i"
  then show "beams_get (beams c') i = beams_get (beams c) i"
    using nan_where_length [OF mj] nan_where_length [OF mn] nan_where_length [OF p] c'
    by (auto simp: beams_get_def beams_list_def)
qed


lemma conv_loop_frame:
  assumes "map_err (conv_data lib md n cbs) d = Inr d'"
  shows "list_all2 (\<lambda>c c'. beams c' = beams c \<and> mask c' = mask c) d d'"
  using assms by (rule map_err_rel) (simp add: conv_data_frame)

lemma mask_loop_frame:
  assumes "map_err mask_stored d = Inr d1"
  shows "list_all2 (\<lambda>c c'. mask c' = mask c
     \<and> (\<forall>i. \<not> mask c ! i \<longrightarrow> beams_get (beams c') i = beams_get (beams c) i)) d d1"
  using assms by (rule map_err_rel) (simp add: mask_stored_frame)

text \<open>
  Claim C10, as the code has it. When \<^verbatim>\<open>commonbeamer\<close> returns, the masks are as
  before, and the stored beam of every channel that is not masked is as before, in both
  modes. In the natural mode the stored beams are unchanged altogether. In the total
  mode they are the arrays that the loop over the cubes has written NaN into, at the
  masked channels: that loop works on the stored arrays, not on copies.
\<close>

theorem stored_beams_frame:
  assumes "commonbeamer lib datadict nchans a cm md target_beam = Inr d'"
  shows "length d' = length datadict
    \<and> map mask d' = map mask datadict
    \<and> (md = ''natural'' \<longrightarrow> map beams d' = map beams datadict)
    \<and> (md = ''total'' \<longrightarrow>
          (\<exists>d1. map_err mask_stored datadict = Inr d1 \<and> map beams d' = map beams d1))
    \<and> (\<forall>k i. k < length datadict \<and> \<not> mask (datadict ! k) ! i \<longrightarrow>
          beams_get (beams (d' ! k)) i = beams_get (beams (datadict ! k)) i)"
proof -
  consider (nat) "md = ''natural''" | (tot) "md = ''total''" "md \<noteq> ''natural''"
    | (other) "md \<noteq> ''natural''" "md \<noteq> ''total''" by blast
  then show ?thesis
  proof cases
    case nat
    then obtain cbs where "map_err (conv_data lib md nchans cbs) datadict = Inr d'"
      using assms by (auto simp: commonbeamer_def split: sum.splits)
    then have r: "list_all2 (\<lambda>c c'. beams c' = beams c \<and> mask c' = mask c) datadict d'"
      by (rule conv_loop_frame)
    have len: "length d' = length datadict" using r by (simp add: list_all2_lengthD)
    have nth: "\<And>k. k < length datadict \<Longrightarrow>
        beams (d' ! k) = beams (datadict ! k) \<and> mask (d' ! k) = mask (datadict ! k)"
      using r by (auto simp: list_all2_conv_all_nth)
    have "map mask d' = map mask datadict" "map beams d' = map beams datadict"
      using len nth by (simp_all add: list_eq_iff_nth_eq)
    then show ?thesis using nat len nth by simp
  next
    case tot
    then obtain d1 cbs where
      d1: "map_err mask_stored datadict = Inr d1" and
      cv: "map_err (conv_data lib md nchans cbs) d1 = Inr d'"
      using assms
      by (auto simp: commonbeamer_def commonbeamer_total_def split: sum.splits)
    have r1: "list_all2 (\<lambda>c c'. mask c' = mask c
        \<and> (\<forall>i. \<not> mask c ! i \<longrightarrow> beams_get (beams c') i = beams_get (beams c) i)) datadict d1"
      using d1 by (rule mask_loop_frame)
    have r2: "list_all2 (\<lambda>c c'. beams c' = beams c \<and> mask c' = mask c) d1 d'"
      using cv by (rule conv_loop_frame)
    have len: "length d1 = length datadict" "length d' = length d1"
      using r1 r2 by (simp_all add: list_all2_lengthD)
    have nth1: "\<And>k. k < length datadict \<Longrightarrow> mask (d1 ! k) = mask (datadict ! k)
        \<and> (\<forall>i. \<not> mask (datadict ! k) ! i \<longrightarrow>
              beams_get (beams (d1 ! k)) i = beams_get (beams (datadict ! k)) i)"
      using r1 by (auto simp: list_all2_conv_all_nth)
    have nth2: "\<And>k. k < length datadict \<Longrightarrow>
        beams (d' ! k) = beams (d1 ! k) \<and> mask (d' ! k) = mask (d1 ! k)"
      using r2 len by (auto simp: list_all2_conv_all_nth)
    have "map mask d' = map mask datadict" "map beams d' = map beams d1"
      using len nth1 nth2 by (simp_all add: list_eq_iff_nth_eq)
    then show ?thesis using tot len nth1 nth2 d1 by simp
  next
    case other
    then have "datadict = []" "d' = []"
      using assms by (auto simp: commonbeamer_def split: if_splits)
    then show ?thesis using other by simp
  qed
qed


theorem stored_beams_frame_witness:
  "(case commonbeamer aligned_lib [flagged_cube\<lparr>mask := [False, True]\<rparr>] 2 default_args
           ''robust'' ''total'' None of
      Inl e \<Rightarrow> False
    | Inr d' \<Rightarrow> length d' = 1 \<and> map mask d' = [[False, True]]
        \<and> beams_get (beams (d' ! 0)) 0 = Inr (circ 10))"
proof -
  obtain d' where run: "commonbeamer aligned_lib [flagged_cube\<lparr>mask := [False, True]\<rparr>] 2
      default_args ''robust'' ''total'' None = Inr d'"
    by (simp add: run_defs flagged_cube_def eval_nat_numeral)
  have "beams_get (beams (flagged_cube\<lparr>mask := [False, True]\<rparr>)) 0 = Inr (circ 10)"
    by (simp add: flagged_cube_def new_cube_def beams_get_def beams_list_def qarr_def circ_def)
  then show ?thesis
    using stored_beams_frame [OF run] run by simp
qed

text \<open>
  The claim as stated fails in the total mode: the masked entries are not changed in
  working copies only. On the cube of two channels whose second channel carries the null
  beam, \<^verbatim>\<open>masking\<close> masks the second channel, and the total mode of
  \<^verbatim>\<open>commonbeamer\<close> returns the cube with NaN in place of the stored null beam.
\<close>

theorem total_mode_overwrites_stored_beams:
  "(case commonbeamer aligned_lib [flagged_cube\<lparr>mask := [False, True]\<rparr>] 2 default_args
           ''robust'' ''total'' None of
      Inl e \<Rightarrow> [] | Inr d' \<Rightarrow> map beams d')
     = [\<lparr>majors = qarr [Fin 10, NaN] Arcsec, minors = qarr [Fin 10, NaN] Arcsec,
         pas = qarr [Fin 0, NaN] Deg\<rparr>]
   \<and> beams flagged_cube
     = \<lparr>majors = qarr [Fin 10, Fin 0] Arcsec, minors = qarr [Fin 10, Fin 0] Arcsec,
        pas = qarr [Fin 0, Fin 0] Deg\<rparr>
   \<and> masking aligned_lib 2 None [flagged_cube] = Inr [flagged_cube\<lparr>mask := [False, True]\<rparr>]"
  by (simp add: run_defs flagged_cube_def eval_nat_numeral)

subsection \<open>The library instance on circular beams\<close>

lemma sqrt_25 [simp]: "sqrt 25 = 5"
  using real_sqrt_abs [of 5] by simp

lemma sqrt_16 [simp]: "sqrt 16 = 4"
  using real_sqrt_abs [of 4] by simp

lemma aligned_lib_simps [simp]:
  "common_beam aligned_lib = aligned_common_beam"
  "deconvolve aligned_lib = aligned_deconvolve"
  "convolve aligned_lib = aligned_convolve"
  "beam_eq aligned_lib = exact_eq"
  "gauss_factor aligned_lib = nan_factor"
  by (simp_all add: aligned_lib_def)

lemma nonnan_circ [simp]: "filter (\<lambda>b. \<not> beam_isnan b) [circ w] = [circ w]"
  by simp

lemma aligned_solver_single [simp]: "aligned_common_beam tol ns eps [b] = Inr b"
  by (simp add: aligned_common_beam_def)

lemma aligned_minorcons_circ:
  "minorcons aligned_lib (circ v) [circ w]
     = (if v < w then Inl ValueError else Inr [Fin (sqrt (v * v - w * w))])"
  by (simp add: minorcons_def aligned_deconvolve_def circ_def to_unit_def)

lemma circ3_nyq:
  "nyq_beam aligned_lib (quant (Fin (1 / 1800)) Deg) (circ 3) = circ 5"
  by (simp add: nyq_beam_def nyq_con_beam_def qscale_def round_beam_def
      aligned_convolve_def circ_def to_unit_def)

lemma circ3_lt_circ5: "beam_lt (circ 3) (circ 5)"
  by (simp add: beam_lt_def beam_area_def circ_def to_unit_def)

lemma circ3_nyq_neg:
  "nyq_beam aligned_lib (quant (Fin (- 1 / 1800)) Deg) (circ 3) = circ 5"
  by (simp add: nyq_beam_def nyq_con_beam_def qscale_def round_beam_def
      aligned_convolve_def circ_def to_unit_def)

subsection \<open>Beam sets of NaN only\<close>

lemma filter_all_nan:
  "list_all beam_isnan bs \<Longrightarrow> filter (\<lambda>b. \<not> beam_isnan b) bs = []"
  by (induction bs) simp_all

text \<open>
  Claim C1 (not met by the code in the total mode). For a beam set of NaN beams only, the
  natural mode returns the NaN beam without calling the solver. The total mode has no
  such guard: it calls the solver on the empty set of beams, and an exception of that
  call other than \<^verbatim>\<open>BeamError\<close> ends the run.
\<close>

theorem total_mode_lacks_nan_guard:
  assumes "list_all beam_isnan bs"
  shows "natural_common lib a cm grid bs = Inr nan_beam
    \<and> (\<forall>e. common_beam lib (tolerance a) (nsamps a) (epsilon a) [] = Inl e \<and> e \<noteq> BeamError
          \<longrightarrow> total_common lib a cm grid bs target_beam = Inl e)"
  using assms
  by (simp add: natural_common_def total_common_def common_beam_retry_def filter_all_nan)

theorem total_mode_lacks_nan_guard_witness:
  "list_all beam_isnan [nan_beam]
   \<and> natural_common aligned_lib default_args ''robust'' (quant (Fin (1 / 1440)) Deg) [nan_beam]
       = Inr nan_beam
   \<and> total_common aligned_lib default_args ''robust'' (quant (Fin (1 / 1440)) Deg) [nan_beam] None
       = Inl ValueError"
proof -
  have 1: "list_all beam_isnan [nan_beam]"
    by (simp add: beam_isnan_def beam_area_def nan_beam_def to_unit_def)
  have 2: "common_beam aligned_lib (tolerance default_args) (nsamps default_args)
      (epsilon default_args) [] = Inl ValueError"
    by (simp add: aligned_lib_def aligned_common_beam_def)
  show ?thesis
    using total_mode_lacks_nan_guard [OF 1, of aligned_lib default_args "''robust''"
        "quant (Fin (1 / 1440)) Deg" None] 1 2
    by simp
qed

text \<open>The two modes on a cube whose only channel carries the null beam: the total mode
  raises, the natural mode plans a NaN common beam, a NaN convolving beam and a NaN
  factor.\<close>

lemma blank_total_run:
  "plan aligned_lib (default_args\<lparr>mode := ''total''\<rparr>) [blank_cube] = Inl ValueError"
  by (simp add: run_defs blank_cube_def)

lemma blank_natural_run:
  "(case plan aligned_lib default_args [blank_cube] of
      Inl e \<Rightarrow> [] | Inr d \<Rightarrow> map (\<lambda>c. (commonbeams c, convbeams c, facs c)) d)
   = [(Some \<lparr>majors = qarr [NaN] Deg, minors = qarr [NaN] Deg, pas = qarr [NaN] Deg\<rparr>,
       Some \<lparr>majors = qarr [NaN] Deg, minors = qarr [NaN] Deg, pas = qarr [NaN] Deg\<rparr>,
       Some [NaN])]"
  by (simp add: run_defs blank_cube_def)

subsection \<open>Replaying the log\<close>

text \<open>
  When the common beams and the convolving beams are held in arcsec (and the angles in
  deg), reading the log back gives the cube that wrote it; and a run that reads the logs
  depends on the library through the equality of beams only, which \<^verbatim>\<open>masking\<close>
  uses: the solver and the Nyquist check play no part.
\<close>

lemma replay_exact:
  assumes "conv_data lib md n cbs c = Inr c'"
    and "aunit (majors cbs) = Arcsec" "aunit (minors cbs) = Arcsec" "aunit (pas cbs) = Deg"
    and "\<And>cv. convbeams c' = Some cv \<Longrightarrow> aunit (majors cv) = Arcsec \<and> aunit (minors cv) = Arcsec"
  shows "read_cube md c' = Inr c'"
proof -
  obtain cvs tab where
    cvs: "convbeams_of lib cbs c = Inr cvs" and
    tab: "write_log n cbs cvs (getfacs lib c cvs) = Inr tab" and
    c': "c' = c\<lparr>facs := Some (getfacs lib c cvs), convbeams := Some cvs,
                 commonbeams := Some cbs, logfiles := (logfiles c)(md \<mapsto> tab)\<rparr>"
    using assms(1) by (auto simp: conv_data_def split: sum.splits)
  have pa: "aunit (pas cvs) = Deg"
    using cvs by (auto simp: convbeams_of_def qarr_def split: sum.splits list.splits)
  have u: "aunit (majors cvs) = Arcsec" "aunit (minors cvs) = Arcsec"
    using assms(5) [of cvs] c' by simp_all
  have t: "tab = \<lparr>col_channel = map int [0..<n],
                target_bmaj = avalues (majors cbs), target_bmin = avalues (minors cbs),
                target_bpa = avalues (pas cbs),
                conv_bmaj = avalues (majors cvs), conv_bmin = avalues (minors cvs),
                conv_bpa = avalues (pas cvs), conv_factor = getfacs lib c cvs,
                unit_comment =
                  [None, Some (aunit (majors cbs)), Some (aunit (minors cbs)),
                   Some (aunit (pas cbs)), Some (aunit (majors cvs)),
                   Some (aunit (minors cvs)), Some (aunit (pas cvs)), None]\<rparr>"
    using tab by (auto simp: write_log_def split: if_splits)
  have q: "\<And>x. qarr (avalues x) (aunit x) = x" by (simp add: qarr_def)
  have b1: "\<lparr>majors = qarr (avalues (majors cbs)) Arcsec, minors = qarr (avalues (minors cbs)) Arcsec,
            pas = qarr (avalues (pas cbs)) Deg\<rparr> = cbs"
    using q [of "majors cbs"] q [of "minors cbs"] q [of "pas cbs"] assms(2-4) by simp
  have b2: "\<lparr>majors = qarr (avalues (majors cvs)) Arcsec, minors = qarr (avalues (minors cvs)) Arcsec,
            pas = qarr (avalues (pas cvs)) Deg\<rparr> = cvs"
    using q [of "majors cvs"] q [of "minors cvs"] q [of "pas cvs"] u pa by simp
  show ?thesis
    unfolding c' by (simp add: read_cube_def t b1 b2)
qed

lemma masking_lib:
  assumes "beam_eq lib = beam_eq lib'"
  shows "masking lib n q d = masking lib' n q d"
proof -
  have h: "add_nullmask lib = add_nullmask lib'"
    using assms by (intro ext) (simp add: add_nullmask_def nullmask_def)
  show ?thesis unfolding masking_def h by (rule refl)
qed

lemma replay_ignores_solver:
  assumes "uselogs a" "beam_eq lib = beam_eq lib'"
  shows "plan lib a d = plan lib' a d"
  using assms masking_lib [OF assms(2)]
  by (auto simp: plan_def split: sum.splits list.splits)

text \<open>
  Claim C6 (not met by the code). Reading the log back should give the beams that were
  written. In the natural mode the common beams get the unit of the beam of the last
  channel; when that channel is masked in every cube, this is the NaN beam, in deg. On
  the cube of two channels whose second channel carries the null beam, the run holds a
  common beam of 10 deg for the first channel, the log holds the number 10, and the run
  that replays the log holds 10 arcsec.
\<close>

theorem replay_changes_units:
  "(case plan aligned_lib default_args [flagged_cube] of
      Inl e \<Rightarrow> [] | Inr d \<Rightarrow> map commonbeams d)
     = [Some \<lparr>majors = qarr [Fin 10, NaN] Deg, minors = qarr [Fin 10, NaN] Deg,
              pas = qarr [Fin 0, NaN] Deg\<rparr>]
   \<and> (case plan aligned_lib default_args [flagged_cube] of
        Inl e \<Rightarrow> []
      | Inr d \<Rightarrow>
          (case plan aligned_lib (default_args\<lparr>uselogs := True\<rparr>) d of
             Inl e \<Rightarrow> [] | Inr d2 \<Rightarrow> map commonbeams d2))
     = [Some \<lparr>majors = qarr [Fin 10, NaN] Arcsec, minors = qarr [Fin 10, NaN] Arcsec,
              pas = qarr [Fin 0, NaN] Deg\<rparr>]"
  by (simp add: run_defs flagged_cube_def eval_nat_numeral)

subsection \<open>The target beam of the total mode\<close>

text \<open>
  Claim C2, as the code has it. With a target beam, the total mode never returns another
  beam than the target. The solver runs first all the same, on the beams that are not
  NaN and with its one retry, and an exception of the solver ends the run. When the
  solver succeeds and the convolution mode is \<^verbatim>\<open>robust\<close>, no check is made and the
  target is returned. When the solver succeeds and the mode is another one, the target
  is deconvolved by every beam that is not NaN; an exception of a deconvolution ends the
  run, and else the run ends with the under-sampling error exactly when some sample count
  is below 2 and the target is smaller than its guard beam (the target convolved with the
  beam of twice the grid spacing, rounded up); in every other case the target is
  returned.
\<close>

theorem total_target_beam:
  "(\<forall>b. total_common lib a cm grid bs (Some t) = Inr b \<longrightarrow> b = t)
   \<and> (\<forall>e. snd (common_beam_retry lib a (filter (\<lambda>b. \<not> beam_isnan b) bs)) = Inl e
          \<longrightarrow> total_common lib a cm grid bs (Some t) = Inl e)
   \<and> (\<forall>s. snd (common_beam_retry lib a (filter (\<lambda>b. \<not> beam_isnan b) bs)) = Inr s
            \<and> cm = ''robust''
          \<longrightarrow> total_common lib a cm grid bs (Some t) = Inr t)
   \<and> (\<forall>s e. snd (common_beam_retry lib a (filter (\<lambda>b. \<not> beam_isnan b) bs)) = Inr s
            \<and> cm \<noteq> ''robust''
            \<and> minorcons lib t (filter (\<lambda>b. \<not> beam_isnan b) bs) = Inl e
          \<longrightarrow> total_common lib a cm grid bs (Some t) = Inl e)
   \<and> (\<forall>s ms. snd (common_beam_retry lib a (filter (\<lambda>b. \<not> beam_isnan b) bs)) = Inr s
            \<and> cm \<noteq> ''robust''
            \<and> minorcons lib t (filter (\<lambda>b. \<not> beam_isnan b) bs) = Inr ms
          \<longrightarrow> total_common lib a cm grid bs (Some t)
                = (if any_undersampled ms grid \<and> beam_lt t (nyq_beam lib grid t)
                   then Inl UndersampleError else Inr t))"
  by (auto simp: total_common_def nyquist_total_def split: sum.splits if_splits)

theorem robust_target_counterexample:
  "beam_lt (circ 3) (nyq_beam aligned_lib (quant (Fin (1 / 1800)) Deg) (circ 3))
   \<and> total_common aligned_lib default_args ''robust'' (quant (Fin (1 / 1800)) Deg) [circ 3]
        (Some (circ 3)) = Inr (circ 3)"
  by (simp add: circ3_nyq circ3_lt_circ5 total_common_def nyquist_total_def
      common_beam_retry_def)

theorem total_target_beam_witness:
  "total_common aligned_lib default_args ''scipy'' (quant (Fin (1 / 1800)) Deg) [circ 3]
        (Some (circ 3)) = Inl UndersampleError
   \<and> total_common aligned_lib default_args ''robust'' (quant (Fin (1 / 1800)) Deg) [circ 3]
        (Some (circ 3)) = Inr (circ 3)
   \<and> total_common aligned_lib default_args ''scipy'' (quant (Fin (1 / 1800)) Deg) [circ 3]
        (Some (circ 5)) = Inr (circ 5)
   \<and> total_common stuck_lib default_args ''robust'' (quant (Fin (1 / 1800)) Deg) [circ 3]
        (Some (circ 5)) = Inl BeamError
   \<and> total_common aligned_lib default_args ''robust'' (quant (Fin (1 / 1800)) Deg) [nan_beam]
        (Some (circ 5)) = Inl ValueError"
proof -
  have s: "snd (common_beam_retry aligned_lib default_args (filter (\<lambda>b. \<not> beam_isnan b) [circ 3]))
      = Inr (circ 3)"
    by (simp add: common_beam_retry_def)
  have m3: "minorcons aligned_lib (circ 3) (filter (\<lambda>b. \<not> beam_isnan b) [circ 3]) = Inr [Fin 0]"
    by (simp add: aligned_minorcons_circ)
  have m5: "minorcons aligned_lib (circ 5) (filter (\<lambda>b. \<not> beam_isnan b) [circ 3]) = Inr [Fin 4]"
    by (simp add: aligned_minorcons_circ)
  have u3: "any_undersampled [Fin 0] (quant (Fin (1 / 1800)) Deg)"
    by (simp add: any_undersampled_def to_unit_def)
  have u5: "\<not> any_undersampled [Fin 4] (quant (Fin (1 / 1800)) Deg)"
    by (simp add: any_undersampled_def to_unit_def)
  note t3 = total_target_beam [of aligned_lib default_args _ "quant (Fin (1 / 1800)) Deg"
      "[circ 3]" "circ 3"]
  note t5 = total_target_beam [of aligned_lib default_args "''scipy''"
      "quant (Fin (1 / 1800)) Deg" "[circ 3]" "circ 5"]
  have a: "total_common aligned_lib default_args ''scipy'' (quant (Fin (1 / 1800)) Deg) [circ 3]
        (Some (circ 3)) = Inl UndersampleError"
    using t3 [of "''scipy''"] s m3 u3 circ3_nyq circ3_lt_circ5 by simp
  have b: "total_common aligned_lib default_args ''robust'' (quant (Fin (1 / 1800)) Deg) [circ 3]
        (Some (circ 3)) = Inr (circ 3)"
    using t3 [of "''robust''"] s by simp
  have c: "total_common aligned_lib default_args ''scipy'' (quant (Fin (1 / 1800)) Deg) [circ 3]
        (Some (circ 5)) = Inr (circ 5)"
    using t5 s m5 u5 by simp
  have sf: "snd (common_beam_retry stuck_lib default_args (filter (\<lambda>b. \<not> beam_isnan b) [circ 3]))
      = Inl BeamError"
    by (simp add: common_beam_retry_def stuck_lib_def)
  have d: "total_common stuck_lib default_args ''robust'' (quant (Fin (1 / 1800)) Deg) [circ 3]
        (Some (circ 5)) = Inl BeamError"
    using total_target_beam [of stuck_lib default_args "''robust''"
        "quant (Fin (1 / 1800)) Deg" "[circ 3]" "circ 5"] sf by simp
  have nf: "snd (common_beam_retry aligned_lib default_args
        (filter (\<lambda>b. \<not> beam_isnan b) [nan_beam])) = Inl ValueError"
    by (simp add: common_beam_retry_def aligned_common_beam_def beam_isnan_def beam_area_def
        nan_beam_def to_unit_def)
  have e: "total_common aligned_lib default_args ''robust'' (quant (Fin (1 / 1800)) Deg)
        [nan_beam] (Some (circ 5)) = Inl ValueError"
    using total_target_beam [of aligned_lib default_args "''robust''"
        "quant (Fin (1 / 1800)) Deg" "[nan_beam]" "circ 5"] nf by simp
  show ?thesis using a b c d e by simp
qed

subsection \<open>The Nyquist check\<close>

lemma minorcons_nth:
  assumes "minorcons lib c bs = Inr ms"
  shows "length ms = length bs
    \<and> (\<forall>i<length bs. \<exists>d. deconvolve lib c (bs ! i) = Inr d
            \<and> ms ! i = qvalue (to_unit Arcsec (minor d)))"
proof -
  have "list_all2 (\<lambda>b m. \<exists>d. deconvolve lib c b = Inr d \<and> m = qvalue (to_unit Arcsec (minor d)))
      bs ms"
    using assms unfolding minorcons_def
    by (rule map_err_rel) (auto split: sum.splits)
  then show ?thesis by (auto simp: list_all2_conv_all_nth)
qed

text \<open>
  The check, branch by branch, for every choice of the library operations. With the
  convolution mode \<^verbatim>\<open>robust\<close> no check is made and the candidate is returned as it
  is. Otherwise the check deconvolves the candidate by every beam that is not NaN and
  divides the minor axes, in arcsec, by the grid spacing; when no sample count is below 2
  the candidate is returned as it is, and else the candidate convolved with the beam of
  twice the grid spacing at position angle 0, rounded up, is returned. The total mode
  without a target beam makes the same check.
\<close>

theorem nyquist_check:
  "(cm = ''robust'' \<longrightarrow> nyquist_natural lib cm grid bs c = Inr c)
   \<and> (\<forall>ms. cm \<noteq> ''robust'' \<and> minorcons lib c bs = Inr ms \<longrightarrow>
          nyquist_natural lib cm grid bs c
            = (if any_undersampled ms grid
               then Inr (round_beam (convolve lib c
                           \<lparr>major = qscale grid 2, minor = qscale grid 2, pa = quant (Fin 0) Deg\<rparr>))
               else Inr c))
   \<and> (\<forall>ms. minorcons lib c bs = Inr ms \<longrightarrow>
          length ms = length bs
          \<and> (\<forall>i<length bs. \<exists>d. deconvolve lib c (bs ! i) = Inr d
                \<and> ms ! i = qvalue (to_unit Arcsec (minor d))))
   \<and> (\<forall>ms. any_undersampled ms grid
          = list_ex (\<lambda>m. undersampled m (qvalue (to_unit Arcsec grid))) ms)
   \<and> (\<forall>m g. g \<noteq> 0 \<longrightarrow> undersampled (Fin m) (Fin g) = (m / g < 2))
   \<and> nyquist_total lib cm grid bs None c = nyquist_natural lib cm grid bs c"
proof -
  have p1: "cm = ''robust'' \<longrightarrow> nyquist_natural lib cm grid bs c = Inr c"
    by (simp add: nyquist_natural_def)
  have p2: "\<forall>ms. cm \<noteq> ''robust'' \<and> minorcons lib c bs = Inr ms \<longrightarrow>
          nyquist_natural lib cm grid bs c
            = (if any_undersampled ms grid
               then Inr (round_beam (convolve lib c
                           \<lparr>major = qscale grid 2, minor = qscale grid 2, pa = quant (Fin 0) Deg\<rparr>))
               else Inr c)"
    by (simp add: nyquist_natural_def nyq_beam_def nyq_con_beam_def)
  have p3: "\<forall>ms. minorcons lib c bs = Inr ms \<longrightarrow>
          length ms = length bs
          \<and> (\<forall>i<length bs. \<exists>d. deconvolve lib c (bs ! i) = Inr d
                \<and> ms ! i = qvalue (to_unit Arcsec (minor d)))"
    by (intro allI impI) (rule minorcons_nth)
  have p4: "\<forall>ms. any_undersampled ms grid
          = list_ex (\<lambda>m. undersampled m (qvalue (to_unit Arcsec grid))) ms"
    by (simp add: any_undersampled_def)
  have p5: "\<forall>m g. g \<noteq> 0 \<longrightarrow> undersampled (Fin m) (Fin g) = (m / g < 2)"
    by simp
  have p6: "nyquist_total lib cm grid bs None c = nyquist_natural lib cm grid bs c"
    by (simp add: nyquist_natural_def nyquist_total_def split: sum.splits)
  show ?thesis
    by (intro conjI; fact p1 p2 p3 p4 p5 p6)
qed

theorem nyquist_check_witness:
  "nyquist_natural aligned_lib ''scipy'' (quant (Fin (1 / 1800)) Deg) [circ 3] (circ 3)
      = Inr (circ 5)
   \<and> nyquist_natural aligned_lib ''scipy'' (quant (Fin (1 / 1800)) Deg) [circ 3] (circ 5)
      = Inr (circ 5)
   \<and> nyquist_natural aligned_lib ''robust'' (quant (Fin (1 / 1800)) Deg) [circ 3] (circ 3)
      = Inr (circ 3)"
proof -
  have m3: "minorcons aligned_lib (circ 3) [circ 3] = Inr [Fin 0]"
    by (simp add: aligned_minorcons_circ)
  have m5: "minorcons aligned_lib (circ 5) [circ 3] = Inr [Fin 4]"
    by (simp add: aligned_minorcons_circ)
  have u3: "any_undersampled [Fin 0] (quant (Fin (1 / 1800)) Deg)"
    by (simp add: any_undersampled_def to_unit_def)
  have u5: "\<not> any_undersampled [Fin 4] (quant (Fin (1 / 1800)) Deg)"
    by (simp add: any_undersampled_def to_unit_def)
  have n: "round_beam (convolve aligned_lib (circ 3)
       \<lparr>major = qscale (quant (Fin (1 / 1800)) Deg) 2, minor = qscale (quant (Fin (1 / 1800)) Deg) 2,
        pa = quant (Fin 0) Deg\<rparr>) = circ 5"
    using circ3_nyq by (simp add: nyq_beam_def nyq_con_beam_def)
  have a: "nyquist_natural aligned_lib ''scipy'' (quant (Fin (1 / 1800)) Deg) [circ 3] (circ 3)
      = Inr (circ 5)"
    using nyquist_check [of "''scipy''" aligned_lib "quant (Fin (1 / 1800)) Deg" "[circ 3]" "circ 3"]
      m3 u3 n by simp
  have b: "nyquist_natural aligned_lib ''scipy'' (quant (Fin (1 / 1800)) Deg) [circ 3] (circ 5)
      = Inr (circ 5)"
    using nyquist_check [of "''scipy''" aligned_lib "quant (Fin (1 / 1800)) Deg" "[circ 3]" "circ 5"]
      m5 u5 by simp
  have c: "nyquist_natural aligned_lib ''robust'' (quant (Fin (1 / 1800)) Deg) [circ 3] (circ 3)
      = Inr (circ 3)"
    using nyquist_check [of "''robust''" aligned_lib "quant (Fin (1 / 1800)) Deg" "[circ 3]" "circ 3"]
    by simp
  show ?thesis using a b c by simp
qed

text \<open>
  The claim as stated fails in two ways. With \<^verbatim>\<open>robust\<close> the candidate of 3 arcsec
  for the one beam of 3 arcsec is returned although its sample count is 0. With a
  negative grid spacing (a negative \<^verbatim>\<open>CDELT2\<close>) the replacement of 5 arcsec is returned,
  and its sample count \<open>4 / (-2)\<close> is below 2.
\<close>

theorem nyquist_counterexample:
  "minorcons aligned_lib (circ 3) [circ 3] = Inr [Fin 0]
   \<and> any_undersampled [Fin 0] (quant (Fin (1 / 1800)) Deg)
   \<and> natural_common aligned_lib default_args ''robust'' (quant (Fin (1 / 1800)) Deg) [circ 3]
       = Inr (circ 3)
   \<and> natural_common aligned_lib default_args ''scipy'' (quant (Fin (- 1 / 1800)) Deg) [circ 3]
       = Inr (circ 5)
   \<and> minorcons aligned_lib (circ 5) [circ 3] = Inr [Fin 4]
   \<and> any_undersampled [Fin 4] (quant (Fin (- 1 / 1800)) Deg)"
proof -
  have r: "round_beam (circ 3) = circ 3"
    by (simp add: round_beam_def circ_def to_unit_def)
  have u: "any_undersampled [Fin 0] (quant (Fin (- 1 / 1800)) Deg)"
    by (simp add: any_undersampled_def to_unit_def)
  have "natural_common aligned_lib default_args ''scipy'' (quant (Fin (- 1 / 1800)) Deg) [circ 3]
       = Inr (circ 5)"
    using u circ3_nyq_neg
    by (simp add: natural_common_def common_beam_retry_def nyquist_natural_def r
        aligned_minorcons_circ)
  moreover have "natural_common aligned_lib default_args ''robust'' (quant (Fin (1 / 1800)) Deg)
      [circ 3] = Inr (circ 3)"
    by (simp add: natural_common_def common_beam_retry_def nyquist_natural_def r)
  ultimately show ?thesis
    by (simp add: aligned_minorcons_circ any_undersampled_def to_unit_def)
qed

subsection \<open>The re-check of the replacement\<close>

lemma map_err_ex:
  assumes "\<And>x. x \<in> set xs \<Longrightarrow> \<exists>y. f x = Inr y \<and> P y"
  shows "\<exists>ys. map_err f xs = Inr ys \<and> list_all P ys"
  using assms
proof (induction xs)
  case Nil
  then show ?case by simp
next
  case (Cons x xs)
  obtain y where y: "f x = Inr y" "P y" using Cons.prems by auto
  obtain ys where ys: "map_err f xs = Inr ys" "list_all P ys" using Cons by auto
  show ?case using y ys by simp
qed

lemma fle_trans: "fle a b \<Longrightarrow> fle b c \<Longrightarrow> fle a c"
  by (cases a; cases b; cases c) simp_all

lemma round_up_fixed:
  assumes "y * 100 \<in> \<int>"
  shows "round_up (Fin y) 2 = Fin y"
proof -
  obtain z :: int where z: "y * 100 = of_int z" using assms by (auto elim: Ints_cases)
  then have "\<lceil>y * 100\<rceil> = z" by simp
  then show ?thesis using z by simp
qed

lemma round_up_is_hundredth:
  assumes "round_up p 2 = Fin y"
  shows "y * 100 \<in> \<int>"
proof (cases p)
  case NaN
  then show ?thesis using assms by simp
next
  case (Fin x)
  then have "y * 100 = of_int \<lceil>x * 100\<rceil>" using assms by auto
  then show ?thesis by (metis Ints_of_int)
qed

lemma grid_twice:
  assumes "qvalue (to_unit Arcsec grid) = Fin g"
  shows "qvalue (to_unit Arcsec (qscale grid 2)) = Fin (2 * g)"
  using assms by (cases "qvalue grid") (auto simp: to_unit_def qscale_def)


lemma my_ceil_valid:
  assumes "valid_beam x" "\<not> is_nan (pa_deg x)"
  shows "valid_beam (round_beam x)"
    and "fle (maj_as x) (maj_as (round_beam x))"
    and "fle (min_as x) (min_as (round_beam x))"
proof -
  obtain a m where am: "maj_as x = Fin a" "min_as x = Fin m" "0 \<le> a" "0 \<le> m"
    using assms(1) by (auto simp: valid_beam_def split: pyfloat.splits)
  have ca: "a \<le> of_int \<lceil>a * 10 ^ 1\<rceil> / (10 ^ 1 :: real)" by (rule ceil_ge)
  have cm: "m \<le> of_int \<lceil>m * 10 ^ 1\<rceil> / (10 ^ 1 :: real)" by (rule ceil_ge)
  have ra: "maj_as (round_beam x) = Fin (of_int \<lceil>a * 10\<rceil> / 10)"
    using am by (simp add: maj_as_def round_beam_def to_unit_same)
  have rm: "min_as (round_beam x) = Fin (of_int \<lceil>m * 10\<rceil> / 10)"
    using am by (simp add: min_as_def round_beam_def to_unit_same)
  show "fle (maj_as x) (maj_as (round_beam x))" using am ra ca by simp
  show "fle (min_as x) (min_as (round_beam x))" using am rm cm by simp
  show "valid_beam (round_beam x)"
    using am ra rm ca cm by (simp add: valid_beam_def)
qed

lemma round_beam_pa: "pa_deg (round_beam x) = round_up (pa_deg x) 2"
  by (simp add: pa_deg_def round_beam_def to_unit_same)

lemma sampled_not_under:
  assumes "0 < g" "list_all (\<lambda>m. sampled m (Fin g)) ms" "qvalue (to_unit Arcsec grid) = Fin g"
  shows "\<not> any_undersampled ms grid"
proof -
  have "\<And>m. sampled m (Fin g) \<Longrightarrow> \<not> undersampled m (Fin g)"
  proof -
    fix m assume "sampled m (Fin g)"
    then show "\<not> undersampled m (Fin g)" using assms(1) by (cases m) auto
  qed
  then show ?thesis
    using assms(2,3) by (auto simp: any_undersampled_def list_all_iff list_ex_iff)
qed

lemma minorcons_each:
  assumes "minorcons lib c bs = Inr ms"
  shows "length ms = length bs
    \<and> (\<forall>i<length bs. \<exists>d. deconvolve lib c (bs ! i) = Inr d \<and> ms ! i = min_as d)"
proof -
  have "list_all2 (\<lambda>b m. \<exists>d. deconvolve lib c b = Inr d \<and> m = min_as d) bs ms"
    using assms unfolding minorcons_def
    by (rule map_err_rel) (auto simp: min_as_def split: sum.splits)
  then show ?thesis by (auto simp: list_all2_conv_all_nth)
qed

lemma replacement_sampled:
  assumes g: "qvalue (to_unit Arcsec grid) = Fin g" "0 < g"
    and c: "c = round_beam s" "valid_beam c" "\<not> is_nan (pa_deg c)"
    and bs: "list_all valid_beam bs"
    and laws: "convolve_law lib" "deconvolve_law lib"
    and ms: "minorcons lib c bs = Inr ms"
  shows "\<exists>ms'. minorcons lib (nyq_beam lib grid c) bs = Inr ms'
               \<and> list_all (\<lambda>m. sampled m (Fin g)) ms'"
proof -
  let ?q = "qscale grid 2"
  let ?x = "convolve lib c \<lparr>major = ?q, minor = ?q, pa = quant (Fin 0) Deg\<rparr>"
  have nb: "nyq_beam lib grid c = round_beam ?x"
    by (simp add: nyq_beam_def nyq_con_beam_def)
  have q: "qvalue (to_unit Arcsec ?q) = Fin (2 * g)" using g(1) by (rule grid_twice)
  have w: "(0::real) \<le> 2 * g" using g(2) by simp
  have l1: "valid_beam ?x \<and> pa_kept (pa_deg c) (pa_deg ?x)
      \<and> (\<forall>b d. valid_beam b \<and> deconvolve lib c b = Inr d \<longrightarrow>
            (\<exists>d'. deconvolve lib ?x b = Inr d' \<and> fle (Fin (2 * g)) (min_as d')))"
    using laws(1) c(2,3) q w unfolding convolve_law_def by blast
  obtain yc where yc: "pa_deg c = Fin yc" using c(3) by (cases "pa_deg c") auto
  have ychund: "yc * 100 \<in> \<int>"
    using yc c(1) round_up_is_hundredth [of "pa_deg s" yc] by (simp add: round_beam_pa)
  obtain yx where yx: "pa_deg ?x = Fin yx" "yx = 0 \<or> (yx - yc) / 180 \<in> \<int>"
    using l1 yc by (auto simp: pa_kept_def split: pyfloat.splits)
  have "yx * 100 \<in> \<int>"
  proof (cases "yx = 0")
    case True
    then show ?thesis by simp
  next
    case False
    then obtain k :: int where "(yx - yc) / 180 = of_int k"
      using yx(2) by (auto elim: Ints_cases)
    then have "yx * 100 = yc * 100 + of_int (18000 * k)" by (simp add: field_simps)
    then show ?thesis using ychund by (metis Ints_add Ints_of_int)
  qed
  then have pax: "pa_deg (round_beam ?x) = pa_deg ?x"
    using yx(1) by (simp add: round_beam_pa round_up_fixed)
  have fin: "\<not> is_nan (pa_deg ?x)" using yx(1) by simp
  have vx: "valid_beam ?x" using l1 by blast
  note grow = my_ceil_valid(2,3) [OF vx fin]
  have each: "\<exists>y. (case deconvolve lib (round_beam ?x) b of
                      Inl e \<Rightarrow> Inl e
                    | Inr d \<Rightarrow> Inr (qvalue (to_unit Arcsec (minor d)))) = Inr y
                \<and> sampled y (Fin g)" if b: "b \<in> set bs" for b
  proof -
    have vb: "valid_beam b" using bs b by (simp add: list_all_iff)
    obtain i where i: "i < length bs" "bs ! i = b" using b by (auto simp: in_set_conv_nth)
    obtain d where d: "deconvolve lib c b = Inr d"
      using minorcons_each [OF ms] i by blast
    obtain d1 where d1: "deconvolve lib ?x b = Inr d1" "fle (Fin (2 * g)) (min_as d1)"
      using l1 vb d by blast
    obtain d' where d': "deconvolve lib (round_beam ?x) b = Inr d'" "fle (min_as d1) (min_as d')"
      using laws(2) vb vx d1(1) fin pax grow unfolding deconvolve_law_def by blast
    have "fle (Fin (2 * g)) (min_as d')" using d1(2) d'(2) by (rule fle_trans)
    then obtain y where y: "min_as d' = Fin y" "2 * g \<le> y" by (cases "min_as d'") auto
    have "2 \<le> y / g" using y(2) g(2) by (simp add: pos_le_divide_eq)
    then show ?thesis using d'(1) y(1) by (simp add: min_as_def)
  qed
  show ?thesis
    unfolding nb minorcons_def by (rule map_err_ex) (rule each)
qed

text \<open>The instance for beams at one position angle obeys the two laws.\<close>

lemma in_deg_pos: "0 < in_deg u"
  by (cases u) simp_all

lemma axis_rel:
  assumes "qvalue (to_unit Arcsec qa) = Fin A" "qvalue (to_unit Arcsec qb) = Fin B"
  shows "\<exists>va vb k. 0 < k \<and> qvalue qa = Fin va
    \<and> qvalue (to_unit (qunit qa) qb) = Fin vb \<and> A = va * k \<and> B = vb * k
    \<and> (\<forall>z. qvalue (to_unit Arcsec (quant (Fin z) (qunit qa))) = Fin (z * k))"
proof -
  obtain va where va: "qvalue qa = Fin va" using assms(1)
    by (cases "qvalue qa") (auto simp: to_unit_def)
  obtain wb where wb: "qvalue qb = Fin wb" using assms(2)
    by (cases "qvalue qb") (auto simp: to_unit_def)
  let ?k = "in_deg (qunit qa) * 3600"
  have k: "0 < ?k" using in_deg_pos [of "qunit qa"] by simp
  have ne: "in_deg (qunit qa) \<noteq> 0" using in_deg_pos [of "qunit qa"] by simp
  have 1: "A = va * ?k" using assms(1) va by (simp add: to_unit_def)
  have 2: "qvalue (to_unit (qunit qa) qb) = Fin (wb * in_deg (qunit qb) / in_deg (qunit qa))"
    using wb by (simp add: to_unit_def)
  have 3: "B = (wb * in_deg (qunit qb) / in_deg (qunit qa)) * ?k"
    using assms(2) wb ne by (simp add: to_unit_def)
  have 4: "\<forall>z. qvalue (to_unit Arcsec (quant (Fin z) (qunit qa))) = Fin (z * ?k)"
    by (simp add: to_unit_def)
  show ?thesis using k va 2 1 3 4 by blast
qed

lemma scale_sqrt:
  assumes "0 < (k::real)"
  shows "sqrt z * k = sqrt (z * (k * k))"
  using assms by (simp add: real_sqrt_mult)

lemma axis_sum:
  assumes "qvalue (to_unit Arcsec qa) = Fin A" "qvalue (to_unit Arcsec qb) = Fin B"
  shows "qvalue (to_unit Arcsec
           (quant (quad_sum (qvalue qa) (qvalue (to_unit (qunit qa) qb))) (qunit qa)))
         = Fin (sqrt (A * A + B * B))"
proof -
  obtain va vb k where h: "0 < k" "qvalue qa = Fin va"
    "qvalue (to_unit (qunit qa) qb) = Fin vb" "A = va * k" "B = vb * k"
    "\<And>z. qvalue (to_unit Arcsec (quant (Fin z) (qunit qa))) = Fin (z * k)"
    using axis_rel [OF assms] by blast
  have e: "(va * va + vb * vb) * (k * k) = A * A + B * B"
    unfolding h(4,5) by (simp add: algebra_simps)
  have "sqrt (va * va + vb * vb) * k = sqrt (A * A + B * B)"
    using scale_sqrt [OF h(1), of "va * va + vb * vb"] unfolding e .
  then show ?thesis using h(2,3,6) by simp
qed

lemma axis_diff:
  assumes "qvalue (to_unit Arcsec qa) = Fin A" "qvalue (to_unit Arcsec qb) = Fin B"
  shows "qvalue (to_unit Arcsec
           (quant (quad_diff (qvalue qa) (qvalue (to_unit (qunit qa) qb))) (qunit qa)))
         = Fin (sqrt (A * A - B * B))"
    and "flt (qvalue qa) (qvalue (to_unit (qunit qa) qb)) = (A < B)"
proof -
  obtain va vb k where h: "0 < k" "qvalue qa = Fin va"
    "qvalue (to_unit (qunit qa) qb) = Fin vb" "A = va * k" "B = vb * k"
    "\<And>z. qvalue (to_unit Arcsec (quant (Fin z) (qunit qa))) = Fin (z * k)"
    using axis_rel [OF assms] by blast
  have e: "(va * va - vb * vb) * (k * k) = A * A - B * B"
    unfolding h(4,5) by (simp add: algebra_simps)
  have "sqrt (va * va - vb * vb) * k = sqrt (A * A - B * B)"
    using scale_sqrt [OF h(1), of "va * va - vb * vb"] unfolding e .
  then show "qvalue (to_unit Arcsec
           (quant (quad_diff (qvalue qa) (qvalue (to_unit (qunit qa) qb))) (qunit qa)))
         = Fin (sqrt (A * A - B * B))" using h(2,3,6) by simp
  show "flt (qvalue qa) (qvalue (to_unit (qunit qa) qb)) = (A < B)"
    using h(1,2,3,4,5) by simp
qed

lemma aligned_convolve_as:
  assumes "maj_as c = Fin A" "min_as c = Fin M" "qvalue (to_unit Arcsec q) = Fin w"
  shows "maj_as (aligned_convolve c \<lparr>major = q, minor = q, pa = p\<rparr>) = Fin (sqrt (A * A + w * w))"
    and "min_as (aligned_convolve c \<lparr>major = q, minor = q, pa = p\<rparr>) = Fin (sqrt (M * M + w * w))"
    and "pa_deg (aligned_convolve c \<lparr>major = q, minor = q, pa = p\<rparr>) = pa_deg c"
  using assms axis_sum [of "major c" A q w] axis_sum [of "minor c" M q w]
  by (simp_all add: maj_as_def min_as_def pa_deg_def aligned_convolve_def)

lemma aligned_deconvolve_as:
  assumes "maj_as a = Fin A" "min_as a = Fin M" "maj_as b = Fin B" "min_as b = Fin N"
  shows "aligned_deconvolve a b
     = (if A < B \<or> M < N then Inl ValueError
        else Inr \<lparr>major = quant (quad_diff (qvalue (major a))
                                  (qvalue (to_unit (qunit (major a)) (major b)))) (qunit (major a)),
                minor = quant (quad_diff (qvalue (minor a))
                                  (qvalue (to_unit (qunit (minor a)) (minor b)))) (qunit (minor a)),
                pa = pa a\<rparr>)"
    and "aligned_deconvolve a b = Inr d \<Longrightarrow>
           B \<le> A \<and> N \<le> M \<and> min_as d = Fin (sqrt (M * M - N * N))"
proof -
  note mj = axis_diff [of "major a" A "major b" B]
  note mn = axis_diff [of "minor a" M "minor b" N]
  show 1: "aligned_deconvolve a b
     = (if A < B \<or> M < N then Inl ValueError
        else Inr \<lparr>major = quant (quad_diff (qvalue (major a))
                                  (qvalue (to_unit (qunit (major a)) (major b)))) (qunit (major a)),
                minor = quant (quad_diff (qvalue (minor a))
                                  (qvalue (to_unit (qunit (minor a)) (minor b)))) (qunit (minor a)),
                pa = pa a\<rparr>)"
    using assms mj(2) mn(2) by (simp add: aligned_deconvolve_def maj_as_def min_as_def)
  show "aligned_deconvolve a b = Inr d \<Longrightarrow>
           B \<le> A \<and> N \<le> M \<and> min_as d = Fin (sqrt (M * M - N * N))"
    unfolding 1 using assms mn(1) by (auto simp: min_as_def maj_as_def split: if_splits)
qed

lemma valid_beamE:
  assumes "valid_beam b"
  obtains A M where "maj_as b = Fin A" "min_as b = Fin M" "0 \<le> A" "0 \<le> M"
  using assms by (auto simp: valid_beam_def split: pyfloat.splits)

lemma aligned_convolve_law: "convolve_law aligned_lib"
  unfolding convolve_law_def
proof (intro allI impI)
  fix c q w
  assume h: "valid_beam c \<and> \<not> is_nan (pa_deg c) \<and> qvalue (to_unit Arcsec q) = Fin w \<and> 0 \<le> w"
  let ?n = "\<lparr>major = q, minor = q, pa = quant (Fin 0) Deg\<rparr>"
  let ?x = "convolve aligned_lib c ?n"
  obtain A M where c: "maj_as c = Fin A" "min_as c = Fin M" "0 \<le> A" "0 \<le> M"
    using h by (auto elim: valid_beamE)
  have q: "qvalue (to_unit Arcsec q) = Fin w" and w: "0 \<le> w" using h by simp_all
  have x: "maj_as ?x = Fin (sqrt (A * A + w * w))" "min_as ?x = Fin (sqrt (M * M + w * w))"
    "pa_deg ?x = pa_deg c"
    using aligned_convolve_as [OF c(1,2) q] by (simp_all add: aligned_lib_def)
  have v: "valid_beam ?x" using x by (simp add: valid_beam_def)
  have p: "pa_kept (pa_deg c) (pa_deg ?x)"
    using h x(3) by (cases "pa_deg c") (simp_all add: pa_kept_def)
  have d: "\<exists>d'. deconvolve aligned_lib ?x b = Inr d' \<and> fle (Fin w) (min_as d')"
    if b: "valid_beam b \<and> deconvolve aligned_lib c b = Inr d" for b d
  proof -
    obtain B N where bn: "maj_as b = Fin B" "min_as b = Fin N" "0 \<le> B" "0 \<le> N"
      using b by (auto elim: valid_beamE)
    have le: "B \<le> A" "N \<le> M"
      using aligned_deconvolve_as(2) [OF c(1,2) bn(1,2), of d] b by (simp_all add: aligned_lib_def)
    have "A \<le> sqrt (A * A + w * w)" using c(3) by (simp add: real_le_rsqrt power2_eq_square)
    then have 1: "\<not> sqrt (A * A + w * w) < B" using le(1) by linarith
    have "M \<le> sqrt (M * M + w * w)" using c(4) by (simp add: real_le_rsqrt power2_eq_square)
    then have 2: "\<not> sqrt (M * M + w * w) < N" using le(2) by linarith
    obtain d' where d': "aligned_deconvolve ?x b = Inr d'"
      using aligned_deconvolve_as(1) [OF x(1,2) bn(1,2)] 1 2 by simp
    have m: "min_as d' = Fin (sqrt (sqrt (M * M + w * w) * sqrt (M * M + w * w) - N * N))"
      using aligned_deconvolve_as(2) [OF x(1,2) bn(1,2) d'] by simp
    have nn: "0 \<le> M * M + w * w" by simp
    have "N * N \<le> M * M" using bn(4) le(2) by (simp add: mult_mono)
    then have "w * w \<le> sqrt (M * M + w * w) * sqrt (M * M + w * w) - N * N"
      using nn by simp
    then have "sqrt (w * w) \<le> sqrt (sqrt (M * M + w * w) * sqrt (M * M + w * w) - N * N)"
      by (rule real_sqrt_le_mono)
    then have "w \<le> sqrt (sqrt (M * M + w * w) * sqrt (M * M + w * w) - N * N)"
      using w by simp
    then show ?thesis using d' m by (auto simp: aligned_lib_def)
  qed
  show "valid_beam ?x \<and> pa_kept (pa_deg c) (pa_deg ?x)
    \<and> (\<forall>b d. valid_beam b \<and> deconvolve aligned_lib c b = Inr d \<longrightarrow>
          (\<exists>d'. deconvolve aligned_lib ?x b = Inr d' \<and> fle (Fin w) (min_as d')))"
    using v p d by blast
qed

lemma aligned_deconvolve_law: "deconvolve_law aligned_lib"
  unfolding deconvolve_law_def
proof (intro allI impI)
  fix x x' b d
  assume h: "valid_beam b \<and> valid_beam x \<and> deconvolve aligned_lib x b = Inr d
        \<and> \<not> is_nan (pa_deg x) \<and> pa_deg x' = pa_deg x
        \<and> fle (maj_as x) (maj_as x') \<and> fle (min_as x) (min_as x')"
  obtain B N where bn: "maj_as b = Fin B" "min_as b = Fin N" "0 \<le> B" "0 \<le> N"
    using h by (auto elim: valid_beamE)
  obtain X Xm where x: "maj_as x = Fin X" "min_as x = Fin Xm" "0 \<le> X" "0 \<le> Xm"
    using h by (auto elim: valid_beamE)
  obtain Y where Y: "maj_as x' = Fin Y" "X \<le> Y"
    using h x(1) by (cases "maj_as x'") auto
  obtain Ym where Ym: "min_as x' = Fin Ym" "Xm \<le> Ym"
    using h x(2) by (cases "min_as x'") auto
  have dx: "aligned_deconvolve x b = Inr d" using h by (simp add: aligned_lib_def)
  have le: "B \<le> X" "N \<le> Xm" "min_as d = Fin (sqrt (Xm * Xm - N * N))"
    using aligned_deconvolve_as(2) [OF x(1,2) bn(1,2) dx] by simp_all
  obtain d' where d': "aligned_deconvolve x' b = Inr d'"
    using aligned_deconvolve_as(1) [OF Y(1) Ym(1) bn(1,2)] le Y(2) Ym(2) by simp
  have m: "min_as d' = Fin (sqrt (Ym * Ym - N * N))"
    using aligned_deconvolve_as(2) [OF Y(1) Ym(1) bn(1,2) d'] by simp
  have "Xm * Xm \<le> Ym * Ym" using x(4) Ym(2) by (simp add: mult_mono)
  then have "sqrt (Xm * Xm - N * N) \<le> sqrt (Ym * Ym - N * N)" by simp
  then show "\<exists>d'. deconvolve aligned_lib x' b = Inr d' \<and> fle (min_as d) (min_as d')"
    using d' m le(3) by (auto simp: aligned_lib_def)
qed

text \<open>
  Claim C3, as the code has it. Let the convolution mode be another one than
  \<^verbatim>\<open>robust\<close> and the grid spacing be positive, let the candidate be a rounded beam
  with finite axes that are not negative and a finite position angle, and let the original
  beams that are not NaN have axes that are not negative. The check deconvolves the
  candidate by every such beam and divides the minor axes, in arcsec, by the grid
  spacing. When no sample count is below 2 (so also when every sample count is at least
  2) the candidate is returned as it is. Otherwise the candidate convolved with the beam
  of twice the grid spacing at position angle 0, rounded up, is returned, in the natural
  mode and in the total mode without a target beam; and when the library obeys the two
  laws of Gaussian beams, deconvolving that replacement by every original beam succeeds
  and every sample count of the replacement is at least 2.
\<close>

theorem nyquist_guard:
  assumes "cm \<noteq> ''robust''"
    and "qvalue (to_unit Arcsec grid) = Fin g" "0 < g"
    and "c = round_beam s" "valid_beam c" "\<not> is_nan (pa_deg c)"
    and "list_all valid_beam bs"
    and "convolve_law lib" "deconvolve_law lib"
    and "minorcons lib c bs = Inr ms"
  shows "length ms = length bs
    \<and> (\<forall>i<length bs. \<exists>d. deconvolve lib c (bs ! i) = Inr d \<and> ms ! i = min_as d)
    \<and> (list_all (\<lambda>m. sampled m (Fin g)) ms \<longrightarrow> \<not> any_undersampled ms grid)
    \<and> (\<not> any_undersampled ms grid \<longrightarrow> nyquist_natural lib cm grid bs c = Inr c)
    \<and> (any_undersampled ms grid \<longrightarrow>
          nyquist_natural lib cm grid bs c = Inr (nyq_beam lib grid c)
          \<and> nyq_beam lib grid c
              = round_beam (convolve lib c
                  \<lparr>major = qscale grid 2, minor = qscale grid 2, pa = quant (Fin 0) Deg\<rparr>)
          \<and> (\<exists>ms'. minorcons lib (nyq_beam lib grid c) bs = Inr ms'
                \<and> list_all (\<lambda>m. sampled m (Fin g)) ms'
                \<and> \<not> any_undersampled ms' grid))
    \<and> nyquist_total lib cm grid bs None c = nyquist_natural lib cm grid bs c"
proof -
  note each = minorcons_each [OF assms(10)]
  have p3: "list_all (\<lambda>m. sampled m (Fin g)) ms \<longrightarrow> \<not> any_undersampled ms grid"
    using sampled_not_under [OF assms(3) _ assms(2)] by blast
  have p4: "\<not> any_undersampled ms grid \<longrightarrow> nyquist_natural lib cm grid bs c = Inr c"
    using assms(1,10) by (simp add: nyquist_natural_def)
  obtain ms' where ms': "minorcons lib (nyq_beam lib grid c) bs = Inr ms'"
      "list_all (\<lambda>m. sampled m (Fin g)) ms'"
    using replacement_sampled [OF assms(2-10)] by blast
  have u: "\<not> any_undersampled ms' grid"
    using sampled_not_under [OF assms(3) ms'(2) assms(2)] .
  have p5: "any_undersampled ms grid \<longrightarrow>
          nyquist_natural lib cm grid bs c = Inr (nyq_beam lib grid c)
          \<and> nyq_beam lib grid c
              = round_beam (convolve lib c
                  \<lparr>major = qscale grid 2, minor = qscale grid 2, pa = quant (Fin 0) Deg\<rparr>)
          \<and> (\<exists>ms'. minorcons lib (nyq_beam lib grid c) bs = Inr ms'
                \<and> list_all (\<lambda>m. sampled m (Fin g)) ms'
                \<and> \<not> any_undersampled ms' grid)"
    using assms(1,10) ms' u by (auto simp: nyquist_natural_def nyq_beam_def nyq_con_beam_def)
  have p6: "nyquist_total lib cm grid bs None c = nyquist_natural lib cm grid bs c"
    by (simp add: nyquist_natural_def nyquist_total_def split: sum.splits)
  show ?thesis using each p3 p4 p5 p6 by blast
qed

theorem nyquist_guard_witness:
  "nyquist_natural aligned_lib ''scipy'' (quant (Fin (1 / 1800)) Deg) [circ 3] (circ 3)
      = Inr (circ 5)
   \<and> minorcons aligned_lib (circ 3) [circ 3] = Inr [Fin 0]
   \<and> any_undersampled [Fin 0] (quant (Fin (1 / 1800)) Deg)
   \<and> minorcons aligned_lib (circ 5) [circ 3] = Inr [Fin 4]
   \<and> sampled (Fin 4) (Fin 2)
   \<and> convolve_law aligned_lib \<and> deconvolve_law aligned_lib"
proof -
  have g: "qvalue (to_unit Arcsec (quant (Fin (1 / 1800)) Deg)) = Fin 2"
    by (simp add: to_unit_def)
  have c: "circ 3 = round_beam (circ 3)"
    by (simp add: round_beam_def circ_def to_unit_def)
  have v: "valid_beam (circ 3)" "\<not> is_nan (pa_deg (circ 3))" "list_all valid_beam [circ 3]"
    by (simp_all add: valid_beam_def maj_as_def min_as_def pa_deg_def circ_def to_unit_def)
  have m3: "minorcons aligned_lib (circ 3) [circ 3] = Inr [Fin 0]"
    by (simp add: aligned_minorcons_circ)
  have m5: "minorcons aligned_lib (circ 5) [circ 3] = Inr [Fin 4]"
    by (simp add: aligned_minorcons_circ)
  have u3: "any_undersampled [Fin 0] (quant (Fin (1 / 1800)) Deg)"
    by (simp add: any_undersampled_def to_unit_def)
  have n: "nyquist_natural aligned_lib ''scipy'' (quant (Fin (1 / 1800)) Deg) [circ 3] (circ 3)
      = Inr (circ 5)"
    using nyquist_guard [of "''scipy''" "quant (Fin (1 / 1800)) Deg" 2 "circ 3" "circ 3"
        "[circ 3]" aligned_lib "[Fin 0]", OF _ g _ c v aligned_convolve_law
        aligned_deconvolve_law m3] u3 circ3_nyq
    by simp
  show ?thesis
    using n m3 u3 m5 aligned_convolve_law aligned_deconvolve_law by simp
qed

end
